theory Spec2Isabelle
  imports Complex_Main "HOL-Library.Sublist"
begin

section \<open>JavaScript values used by the request handlers\<close>

text \<open>
  A JavaScript string is modelled as a \<^typ>\<open>string\<close>: a list of code units below 256
  (the Latin-1 range of UTF-16). A value of type \<open>number\<close> that is only compared, scaled
  and passed on (\<open>priority\<close>, \<open>progress\<close>, \<open>estimate\<close>, \<open>limit\<close>) is a
  \<^typ>\<open>real\<close>; \<open>NaN\<close> cannot arrive in a JSON argument bag. An issue's sequence number,
  which is printed into the display key, is an \<^typ>\<open>int\<close>. An optional field
  \<open>field?: T\<close> of an argument bag is an \<^typ>\<open>'a option\<close> with \<open>None\<close> for
  \<open>undefined\<close>, as the declared type has it (a \<open>null\<close> is outside that type and
  outside the model). In a record that comes from the tracker, where the handlers only test
  truthiness, \<open>None\<close> stands for \<open>undefined\<close> and \<open>null\<close> alike.
\<close>

text \<open>Truthiness of a string, and of an optional string.\<close>

definition truthy :: "string \<Rightarrow> bool" where
  "truthy s = (s \<noteq> [])"

definition truthy_opt :: "string option \<Rightarrow> bool" where
  "truthy_opt v = (case v of None \<Rightarrow> False | Some s \<Rightarrow> truthy s)"

text \<open>\<open>a || b\<close> for a string \<open>a\<close> and a default \<open>b\<close>.\<close>

definition or_else :: "string \<Rightarrow> string \<Rightarrow> string" where
  "or_else a b = (if truthy a then a else b)"

text \<open>\<open>String.prototype.includes\<close>: the argument occurs as a contiguous run.\<close>

fun str_includes :: "string \<Rightarrow> string \<Rightarrow> bool" where
  "str_includes [] t = (t = [])"
| "str_includes (x # xs) t = (prefix t (x # xs) \<or> str_includes xs t)"

text \<open>\<open>String.prototype.split\<close> with a separator of one code unit: the pieces between
  every occurrence of the separator; always at least one piece.\<close>

fun js_split :: "string \<Rightarrow> char \<Rightarrow> string list" where
  "js_split [] d = [[]]"
| "js_split (x # xs) d =
     (if x = d then [] # js_split xs d
      else (x # hd (js_split xs d)) # tl (js_split xs d))"

text \<open>Array indexing \<open>xs[i]\<close>: \<open>undefined\<close> out of range.\<close>

fun index_at :: "'a list \<Rightarrow> nat \<Rightarrow> 'a option" where
  "index_at [] i = None"
| "index_at (x # xs) 0 = Some x"
| "index_at (x # xs) (Suc i) = index_at xs i"

text \<open>\<open>String.prototype.toLowerCase\<close> on code units below 256: the letters A-Z and the
  Latin-1 capitals (0xC0-0xDE without the multiplication sign 0xD7) move up by 32.\<close>

definition lower_char :: "char \<Rightarrow> char" where
  "lower_char ch =
     (let n = (of_char ch :: nat)
      in if (65 \<le> n \<and> n \<le> 90) \<or> (192 \<le> n \<and> n \<le> 222 \<and> n \<noteq> 215)
         then char_of (n + 32) else ch)"

definition toLowerCase :: "string \<Rightarrow> string" where
  "toLowerCase s = map lower_char s"

text \<open>\<open>parseInt(s, 10)\<close>: leading white space is skipped, one sign is read, then the
  longest run of decimal digits; no digit gives \<open>NaN\<close>, which is \<open>None\<close> here.\<close>

definition is_space :: "char \<Rightarrow> bool" where
  "is_space ch = ((of_char ch :: nat) \<in> {9, 10, 11, 12, 13, 32, 160})"

definition is_digit :: "char \<Rightarrow> bool" where
  "is_digit ch = (48 \<le> (of_char ch :: nat) \<and> (of_char ch :: nat) \<le> 57)"

definition digit_val :: "char \<Rightarrow> int" where
  "digit_val ch = int (of_char ch) - 48"

fun digits_val :: "int \<Rightarrow> string \<Rightarrow> int" where
  "digits_val acc [] = acc"
| "digits_val acc (d # ds) = digits_val (acc * 10 + digit_val d) ds"

definition parse_digits :: "string \<Rightarrow> int option" where
  "parse_digits s =
     (let ds = takeWhile is_digit s
      in if ds = [] then None else Some (digits_val 0 ds))"

definition parseInt :: "string \<Rightarrow> int option" where
  "parseInt s =
     (case dropWhile is_space s of
        [] \<Rightarrow> None
      | ch # rest \<Rightarrow>
          if ch = CHR ''-'' then map_option uminus (parse_digits rest)
          else if ch = CHR ''+'' then parse_digits rest
          else parse_digits (ch # rest))"

text \<open>\<open>Number.prototype.toString\<close> on an integer, as a template literal prints it:
  in decimal digits, which is what JavaScript does for integers of magnitude below
  \<open>10^21\<close>.\<close>

definition digit_char :: "nat \<Rightarrow> char" where
  "digit_char d = char_of (48 + d)"

fun nat_digits :: "nat \<Rightarrow> string" where
  "nat_digits n = (if n < 10 then [digit_char n] else nat_digits (n div 10) @ [digit_char (n mod 10)])"

declare nat_digits.simps [simp del]

definition toString :: "int \<Rightarrow> string" where
  "toString i = (if i < 0 then CHR ''-'' # nat_digits (nat (- i)) else nat_digits (nat i))"

section \<open>Errors\<close>

text \<open>
  The handlers throw \<open>McpError(code, message)\<close>; the tracker client may throw anything,
  which is an \<open>Error\<close> with a message here. The constructor of \<open>McpError\<close> stores
  \<open>MCP error <code>: <message>\<close> as the \<open>message\<close> property of the exception.
\<close>

datatype ErrorCode = InvalidParams | InternalError

datatype exn = McpError ErrorCode string | Error string

definition code_number :: "ErrorCode \<Rightarrow> string" where
  "code_number c = (case c of InvalidParams \<Rightarrow> ''-32602'' | InternalError \<Rightarrow> ''-32603'')"

definition message :: "exn \<Rightarrow> string" where
  "message e =
     (case e of
        McpError c m \<Rightarrow> ''MCP error '' @ code_number c @ '': '' @ m
      | Error m \<Rightarrow> m)"

section \<open>The tracker's records\<close>

text \<open>The SDK's entities, as \<open>global.d.ts\<close> declares them.\<close>

record User =
  user_id :: string
  user_name :: string
  user_email :: string

record Team =
  team_id :: string
  team_name :: string
  team_key :: string

record WorkflowState =
  state_id :: string
  state_name :: string
  state_type :: string

record IssueLabel =
  label_id :: string
  label_name :: string
  label_color :: string

record Issue =
  issue_id :: string
  issue_title :: string
  issue_description :: "string option"
  issue_number :: int
  issue_priority :: "real option"
  issue_estimate :: "real option"
  issue_dueDate :: "string option"
  issue_teamId :: "string option"
  issue_assigneeId :: "string option"
  issue_stateId :: "string option"
  issue_labelIds :: "string list option"
  issue_createdAt :: string
  issue_updatedAt :: string
  issue_url :: string
  issue_key :: "string option"

record Project =
  project_id :: string
  project_name :: string
  project_description :: "string option"
  project_state :: "string option"
  project_teamIds :: "string list option"
  project_startDate :: "string option"
  project_targetDate :: "string option"
  project_progress :: "real option"
  project_updatedAt :: string
  project_url :: string

text \<open>The reply to the raw query of \<open>getTicketByIdHandler.ts\<close>
  (\<open>GraphQLIssueResponse\<close>): the issue with its relations expanded, under one of two keys.
  A reply that is itself \<open>null\<close> reads as one with neither key.\<close>

record GraphQLIssue =
  gql_id :: string
  gql_title :: string
  gql_description :: "string option"
  gql_number :: int
  gql_priority :: "real option"
  gql_estimate :: "real option"
  gql_dueDate :: "string option"
  gql_createdAt :: string
  gql_updatedAt :: string
  gql_url :: string
  gql_team :: "Team option"
  gql_assignee :: "User option"
  gql_state :: "WorkflowState option"
  gql_labels :: "IssueLabel list option"

record GraphQLIssueResponse =
  resp_issue :: "GraphQLIssue option"
  resp_issueByTeamKeyAndNumber :: "GraphQLIssue option"

text \<open>The payloads of the two mutations (\<open>updateData\<close>) and their results.\<close>

record IssueUpdate =
  upd_title :: "string option"
  upd_description :: "string option"
  upd_stateId :: "string option"
  upd_assigneeId :: "string option"
  upd_priority :: "real option"
  upd_dueDate :: "string option"
  upd_estimate :: "real option"

record IssuePayload =
  ip_success :: bool
  ip_issue :: Issue

record ProjectUpdate =
  pupd_name :: "string option"
  pupd_description :: "string option"
  pupd_stateId :: "string option"
  pupd_teamIds :: "string list option"
  pupd_startDate :: "string option"
  pupd_targetDate :: "string option"
  pupd_progress :: "real option"
  pupd_icon :: "string option"
  pupd_color :: "string option"

record ProjectPayload =
  pp_success :: bool
  pp_project :: Project

section \<open>Remote calls and their trace\<close>

text \<open>
  Every call a handler makes on the client, with the filter it passes. In the raw query
  the variables decide the query text as well: \<open>issue(id: $id)\<close> for \<open>VarsId\<close>,
  \<open>issueByTeamKeyAndNumber(teamKey: $teamKey, number: $number)\<close> otherwise.
\<close>

datatype gql_vars = VarsId string | VarsTeamKeyNumber "string option" "int option"

datatype issue_filter = IssueTeamKeyNumber "string option" "int option" | IssueIdEq string

datatype team_filter = TeamIdEq string | TeamKeyEq string

datatype state_filter = StateIdEq string | StateTeamIdEq string

text \<open>The options of \<open>linearClient.projects\<close>: \<open>filter\<close>, which may be absent or
  the empty object, and the page size \<open>first\<close>, which may be absent. The state type of
  a filter is a string of \<open>statusMap\<close>, or, for \<open>ProjectStateTypeInherited k\<close>, the
  property \<open>k\<close> that \<open>statusMap\<close> inherits from \<open>Object.prototype\<close>, which is not a
  string.\<close>

datatype project_filter =
    ProjectIdEq string
  | ProjectStateTypeEq string
  | ProjectStateTypeInherited string
  | ProjectAny

record project_query =
  pq_filter :: "project_filter option"
  pq_first :: "real option"

datatype call =
    RawRequest gql_vars
  | Issues issue_filter bool
  | Users string
  | Teams team_filter
  | WorkflowStates state_filter
  | IssueLabels
  | UpdateIssue string IssueUpdate
  | Projects project_query
  | UpdateProject string ProjectUpdate

text \<open>The second argument of \<open>Issues\<close> tells whether the four \<open>include...\<close> options
  were passed. What a run leaves behind, in order: remote calls and console lines.\<close>

datatype event = Remote call | ConsoleError string exn | ConsoleWarn string exn

text \<open>
  The client: what each call answers, a value or an exception. No handler repeats a call
  with the same arguments within one run, so a function of the arguments describes every
  tracker, also one whose state an update changes.
\<close>

record LinearClient =
  request :: "gql_vars \<Rightarrow> exn + GraphQLIssueResponse"
  issues :: "issue_filter \<Rightarrow> bool \<Rightarrow> exn + Issue list"
  users :: "string \<Rightarrow> exn + User list"
  teams :: "team_filter \<Rightarrow> exn + Team list"
  workflowStates :: "state_filter \<Rightarrow> exn + WorkflowState list"
  issueLabels :: "exn + IssueLabel list"
  updateIssue :: "string \<Rightarrow> IssueUpdate \<Rightarrow> exn + IssuePayload"
  projects :: "project_query \<Rightarrow> exn + Project list"
  updateProject :: "string \<Rightarrow> ProjectUpdate \<Rightarrow> exn + ProjectPayload"

text \<open>A run of asynchronous code: its result, returned or thrown, and its events.\<close>

type_synonym 'a io = "(exn + 'a) \<times> event list"

definition io_return :: "'a \<Rightarrow> 'a io" where
  "io_return x = (Inr x, [])"

definition io_throw :: "exn \<Rightarrow> 'a io" where
  "io_throw e = (Inl e, [])"

definition io_bind :: "'a io \<Rightarrow> ('a \<Rightarrow> 'b io) \<Rightarrow> 'b io" where
  "io_bind m f =
     (case m of
        (Inl e, t) \<Rightarrow> (Inl e, t)
      | (Inr x, t) \<Rightarrow> (case f x of (r, t') \<Rightarrow> (r, t @ t')))"

text \<open>\<open>try { m } catch (e) { h e }\<close>.\<close>

definition io_catch :: "'a io \<Rightarrow> (exn \<Rightarrow> 'a io) \<Rightarrow> 'a io" where
  "io_catch m h =
     (case m of
        (Inl e, t) \<Rightarrow> (case h e of (r, t') \<Rightarrow> (r, t @ t'))
      | (Inr x, t) \<Rightarrow> (Inr x, t))"

text \<open>\<open>await linearClient.f(...)\<close>: the call is recorded, the answer comes back.\<close>

definition await :: "call \<Rightarrow> exn + 'a \<Rightarrow> 'a io" where
  "await c answer = (answer, [Remote c])"

definition console_error :: "string \<Rightarrow> exn \<Rightarrow> unit io" where
  "console_error s e = (Inr (), [ConsoleError s e])"

definition console_warn :: "string \<Rightarrow> exn \<Rightarrow> unit io" where
  "console_warn s e = (Inr (), [ConsoleWarn s e])"

text \<open>The remote calls of a run, in order.\<close>

fun calls :: "event list \<Rightarrow> call list" where
  "calls [] = []"
| "calls (Remote c # es) = c # calls es"
| "calls (_ # es) = calls es"

text \<open>Among them, the calls that look for the issue itself: the raw query and the
  structured issue query.\<close>

fun issue_queries :: "event list \<Rightarrow> call list" where
  "issue_queries [] = []"
| "issue_queries (Remote (RawRequest v) # es) = RawRequest v # issue_queries es"
| "issue_queries (Remote (Issues f x) # es) = Issues f x # issue_queries es"
| "issue_queries (_ # es) = issue_queries es"

text \<open>The two parts of an identifier around its first hyphen, in which the statements
  below speak of the pieces of the split.\<close>

definition before_hyphen :: "string \<Rightarrow> string" where
  "before_hyphen t = takeWhile (\<lambda>x. x \<noteq> CHR ''-'') t"

definition after_hyphen :: "string \<Rightarrow> string" where
  "after_hyphen t = tl (dropWhile (\<lambda>x. x \<noteq> CHR ''-'') t)"

section \<open>Pieces the handlers share\<close>

text \<open>The last \<open>catch\<close> of every handler: an \<open>McpError\<close> goes on as it is, anything else
  is logged and wrapped.\<close>

definition outer_catch :: "string \<Rightarrow> string \<Rightarrow> exn \<Rightarrow> 'a io" where
  "outer_catch logline pre error =
     (case error of
        McpError c m \<Rightarrow> io_throw error
      | Error m \<Rightarrow>
          io_bind (console_error logline error)
            (\<lambda>_. io_throw (McpError InternalError (pre @ message error))))"

text \<open>The team of an issue, by its id: the same block in \<open>getTicketByIdHandler.ts\<close>
  (l. 339-359) and in both versions of the update handler. A failure is logged and leaves
  \<open>null\<close>.\<close>

definition formatTeam :: "Team \<Rightarrow> string \<Rightarrow> Team" where
  "formatTeam teamData dflt =
     \<lparr>team_id = team_id teamData,
      team_name = or_else (team_name teamData) ''Unknown'',
      team_key = or_else (team_key teamData) dflt\<rparr>"

definition fetchTeamById :: "LinearClient \<Rightarrow> string \<Rightarrow> Team option io" where
  "fetchTeamById c tid =
     io_catch
       (io_bind (await (Teams (TeamIdEq tid)) (teams c (TeamIdEq tid)))
          (\<lambda>nodes. io_return (map_option (\<lambda>teamData. formatTeam teamData ''TEAM'') (index_at nodes 0))))
       (\<lambda>error. io_bind (console_warn ''Error fetching team:'' error) (\<lambda>_. io_return None))"

text \<open>The workflow state of an issue, by its id (\<open>getTicketByIdHandler.ts\<close> l. 386-407,
  and the second update handler).\<close>

definition formatState :: "WorkflowState \<Rightarrow> WorkflowState" where
  "formatState stateData =
     \<lparr>state_id = state_id stateData,
      state_name = or_else (state_name stateData) ''Unknown'',
      state_type = or_else (state_type stateData) ''Unknown''\<rparr>"

definition fetchStateById :: "LinearClient \<Rightarrow> string \<Rightarrow> WorkflowState option io" where
  "fetchStateById c sid =
     io_catch
       (io_bind (await (WorkflowStates (StateIdEq sid)) (workflowStates c (StateIdEq sid)))
          (\<lambda>nodes. io_return (map_option formatState (index_at nodes 0))))
       (\<lambda>error. io_bind (console_warn ''Error fetching state:'' error) (\<lambda>_. io_return None))"

text \<open>\<open>if (v) { ... }\<close> around a lookup by an optional id, the variable starting as
  \<open>null\<close>.\<close>

definition when_truthy :: "string option \<Rightarrow> (string \<Rightarrow> 'a option io) \<Rightarrow> 'a option io" where
  "when_truthy v f = (case v of None \<Rightarrow> io_return None | Some s \<Rightarrow> if truthy s then f s else io_return None)"

text \<open>The display key: \<open>team ? `${team.key}-${n}` : `ISSUE-${n}`\<close>, and in front of it
  the record's own key where the handler reads one (\<open>issue.key || ...\<close>).\<close>

definition deriveKey :: "Team option \<Rightarrow> int \<Rightarrow> string" where
  "deriveKey team n =
     (case team of
        Some t \<Rightarrow> team_key t @ ''-'' @ toString n
      | None \<Rightarrow> ''ISSUE-'' @ toString n)"

definition ticketKey :: "string option \<Rightarrow> Team option \<Rightarrow> int \<Rightarrow> string" where
  "ticketKey own team n = (if truthy_opt own then the own else deriveKey team n)"

text \<open>\<open>parseInt(v, 10)\<close> of a piece that may be \<open>undefined\<close>.\<close>

definition parseInt_opt :: "string option \<Rightarrow> int option" where
  "parseInt_opt v = (case v of None \<Rightarrow> None | Some s \<Rightarrow> parseInt s)"

text \<open>\<open>nodes.length === 0\<close> throws, else \<open>nodes[0]\<close>.\<close>

definition first_or_not_found :: "string \<Rightarrow> Issue list \<Rightarrow> Issue option io" where
  "first_or_not_found ticketId nodes =
     (if length nodes = 0 then io_throw (McpError InternalError (''Ticket not found: '' @ ticketId))
      else io_return (index_at nodes 0))"

section \<open>update-ticket: \<open>src/server/requests/updateTicketHandler.ts\<close>\<close>

record UpdateTicketArgs =
  uta_apiKey :: string
  uta_ticketId :: string
  uta_title :: "string option"
  uta_description :: "string option"
  uta_stateId :: "string option"
  uta_assigneeId :: "string option"
  uta_priority :: "real option"
  uta_dueDate :: "string option"
  uta_estimate :: "real option"

record UpdatedTicket =
  ut_id :: string
  ut_title :: string
  ut_description :: "string option"
  ut_number :: int
  ut_key :: string
  ut_updatedAt :: string
  ut_url :: string

text \<open>The second version of the handler adds the state to the ticket it returns.\<close>

record UpdatedTicketWithState = UpdatedTicket +
  ut_state :: "WorkflowState option"

record 'ticket UpdateTicketResponse =
  utr_success :: bool
  utr_message :: string
  utr_ticket :: 'ticket

definition hasUpdateField :: "UpdateTicketArgs \<Rightarrow> bool" where
  "hasUpdateField args =
     (uta_title args \<noteq> None \<or> uta_description args \<noteq> None \<or> uta_stateId args \<noteq> None \<or>
      uta_assigneeId args \<noteq> None \<or> uta_priority args \<noteq> None \<or> uta_dueDate args \<noteq> None \<or>
      uta_estimate args \<noteq> None)"

definition priority_out_of_range :: "real option \<Rightarrow> bool" where
  "priority_out_of_range pr = (case pr of None \<Rightarrow> False | Some v \<Rightarrow> v < 0 \<or> v > 4)"

text \<open>Lines 95-149: the issue, by key when the identifier has a hyphen, else by id.\<close>

definition findIssue :: "LinearClient \<Rightarrow> string \<Rightarrow> Issue option io" where
  "findIssue c ticketId =
     io_catch
       (if str_includes ticketId ''-'' then
          (let parts = js_split ticketId CHR ''-'';
               teamKey = index_at parts 0;
               issueNumber = index_at parts 1;
               flt = IssueTeamKeyNumber teamKey (parseInt_opt issueNumber)
           in io_bind (await (Issues flt False) (issues c flt False)) (first_or_not_found ticketId))
        else
          io_bind (await (Issues (IssueIdEq ticketId) False) (issues c (IssueIdEq ticketId) False))
            (first_or_not_found ticketId))
       (\<lambda>error. io_bind (console_error ''Error finding ticket:'' error)
          (\<lambda>_. io_throw (McpError InternalError (''Could not find ticket: '' @ ticketId))))"

definition updateTicket_updateData :: "UpdateTicketArgs \<Rightarrow> IssueUpdate" where
  "updateTicket_updateData args =
     \<lparr>upd_title = uta_title args, upd_description = uta_description args,
      upd_stateId = uta_stateId args, upd_assigneeId = uta_assigneeId args,
      upd_priority = uta_priority args, upd_dueDate = uta_dueDate args,
      upd_estimate = uta_estimate args\<rparr>"

definition updateTicket_body :: "LinearClient \<Rightarrow> UpdateTicketArgs \<Rightarrow> UpdatedTicket UpdateTicketResponse io" where
  "updateTicket_body c args =
     (let updateData = updateTicket_updateData args in
      io_bind (findIssue c (uta_ticketId args)) (\<lambda>found.
        case found of
          None \<Rightarrow> io_throw (McpError InternalError (''Ticket not found: '' @ uta_ticketId args))
        | Some issue \<Rightarrow>
            io_bind (await (UpdateIssue (issue_id issue) updateData) (updateIssue c (issue_id issue) updateData))
              (\<lambda>updateResult.
                 if \<not> ip_success updateResult
                 then io_throw (McpError InternalError (''Failed to update ticket: '' @ uta_ticketId args))
                 else
                   (let updatedIssue = ip_issue updateResult in
                    io_bind (when_truthy (issue_teamId updatedIssue) (fetchTeamById c)) (\<lambda>team.
                      io_return
                        \<lparr>utr_success = True,
                         utr_message = ''Ticket updated successfully'',
                         utr_ticket =
                           \<lparr>ut_id = issue_id updatedIssue,
                            ut_title = issue_title updatedIssue,
                            ut_description = issue_description updatedIssue,
                            ut_number = issue_number updatedIssue,
                            ut_key = ticketKey (issue_key updatedIssue) team (issue_number updatedIssue),
                            ut_updatedAt = issue_updatedAt updatedIssue,
                            ut_url = issue_url updatedIssue\<rparr>\<rparr>)))))"

definition updateTicket_handleRequest ::
    "LinearClient \<Rightarrow> UpdateTicketArgs \<Rightarrow> UpdatedTicket UpdateTicketResponse io" where
  "updateTicket_handleRequest c args =
     (if \<not> truthy (uta_apiKey args)
      then io_throw (McpError InvalidParams ''Linear API key is required'')
      else if \<not> truthy (uta_ticketId args)
      then io_throw (McpError InvalidParams ''Ticket ID or key is required'')
      else if \<not> hasUpdateField args
      then io_throw (McpError InvalidParams ''At least one field to update is required'')
      else if priority_out_of_range (uta_priority args)
      then io_throw (McpError InvalidParams ''Priority must be between 0 and 4'')
      else io_catch (updateTicket_body c args)
             (outer_catch ''Error updating ticket:'' ''Failed to update ticket: ''))"

section \<open>update-ticket, second version (\<open>unnamed/part_000\<close>): state names\<close>

text \<open>Lines 89-100: a state given as "done" or "completed" is left out of the payload
  until the issue is known; any other truthy state id goes into it.\<close>

definition is_done_name :: "string option \<Rightarrow> bool" where
  "is_done_name stateId =
     (case stateId of
        None \<Rightarrow> False
      | Some s \<Rightarrow> truthy s \<and> (toLowerCase s = ''done'' \<or> toLowerCase s = ''completed''))"

definition updateTicket2_updateData :: "UpdateTicketArgs \<Rightarrow> IssueUpdate" where
  "updateTicket2_updateData args =
     \<lparr>upd_title = uta_title args, upd_description = uta_description args,
      upd_stateId =
        (if is_done_name (uta_stateId args) then None
         else if truthy_opt (uta_stateId args) then uta_stateId args else None),
      upd_assigneeId = uta_assigneeId args,
      upd_priority = uta_priority args, upd_dueDate = uta_dueDate args,
      upd_estimate = uta_estimate args\<rparr>"

text \<open>Lines 183-203: the team id of the issue, else the id of the team whose key is the
  first piece of the identifier.\<close>

definition effectiveTeamId :: "LinearClient \<Rightarrow> string \<Rightarrow> Issue \<Rightarrow> string option io" where
  "effectiveTeamId c ticketId issue =
     (if \<not> truthy_opt (issue_teamId issue) \<and> str_includes ticketId ''-'' then
        (let teamKey = index_at (js_split ticketId CHR ''-'') 0 in
         case teamKey of
           None \<Rightarrow> io_return (issue_teamId issue)
         | Some k \<Rightarrow>
             io_catch
               (io_bind (await (Teams (TeamKeyEq k)) (teams c (TeamKeyEq k)))
                  (\<lambda>nodes. case index_at nodes 0 of
                     None \<Rightarrow> io_return (issue_teamId issue)
                   | Some t \<Rightarrow> io_return (Some (team_id t))))
               (\<lambda>error. io_bind (console_warn (''Error finding team by key '' @ k @ '':'') error)
                  (\<lambda>_. io_return (issue_teamId issue))))
      else io_return (issue_teamId issue))"

text \<open>Lines 218-223: the first state named "done" or "completed" in any case, or of
  type "completed".\<close>

definition is_done_state :: "WorkflowState \<Rightarrow> bool" where
  "is_done_state st =
     (toLowerCase (state_name st) = ''done'' \<or> toLowerCase (state_name st) = ''completed'' \<or>
      state_type st = ''completed'')"

text \<open>Lines 172-245. Every exception of the block, its own two included, is caught at
  its end and thrown again with the message of the exception after a fixed prefix.\<close>

definition resolveDoneState :: "LinearClient \<Rightarrow> string \<Rightarrow> Issue \<Rightarrow> string io" where
  "resolveDoneState c ticketId issue =
     io_catch
       (io_bind (effectiveTeamId c ticketId issue) (\<lambda>tid.
          if truthy_opt tid then
            io_bind (await (WorkflowStates (StateTeamIdEq (the tid)))
                       (workflowStates c (StateTeamIdEq (the tid))))
              (\<lambda>nodes. case find is_done_state nodes of
                 Some doneState \<Rightarrow> io_return (state_id doneState)
               | None \<Rightarrow>
                   io_throw (McpError InternalError ''Could not find a 'Done' state for this team''))
          else io_throw (McpError InternalError
                           ''Ticket does not have a team, cannot determine workflow states'')))
       (\<lambda>error. io_throw (McpError InternalError (''Failed to find 'Done' state: '' @ message error)))"

definition updateTicket2_body ::
    "LinearClient \<Rightarrow> UpdateTicketArgs \<Rightarrow> UpdatedTicketWithState UpdateTicketResponse io" where
  "updateTicket2_body c args =
     io_bind (findIssue c (uta_ticketId args)) (\<lambda>found.
       case found of
         None \<Rightarrow> io_throw (McpError InternalError (''Ticket not found: '' @ uta_ticketId args))
       | Some issue \<Rightarrow>
           io_bind
             (if is_done_name (uta_stateId args)
              then io_bind (resolveDoneState c (uta_ticketId args) issue)
                     (\<lambda>sid. io_return ((updateTicket2_updateData args)\<lparr>upd_stateId := Some sid\<rparr>))
              else io_return (updateTicket2_updateData args))
             (\<lambda>updateData.
                io_bind (await (UpdateIssue (issue_id issue) updateData)
                           (updateIssue c (issue_id issue) updateData))
                  (\<lambda>updateResult.
                     if \<not> ip_success updateResult
                     then io_throw (McpError InternalError (''Failed to update ticket: '' @ uta_ticketId args))
                     else
                       (let updatedIssue = ip_issue updateResult in
                        io_bind (when_truthy (issue_teamId updatedIssue) (fetchTeamById c)) (\<lambda>team.
                        io_bind (when_truthy (issue_stateId updatedIssue) (fetchStateById c)) (\<lambda>state.
                          io_return
                            \<lparr>utr_success = True,
                             utr_message = ''Ticket updated successfully'',
                             utr_ticket =
                               \<lparr>ut_id = issue_id updatedIssue,
                                ut_title = issue_title updatedIssue,
                                ut_description = issue_description updatedIssue,
                                ut_number = issue_number updatedIssue,
                                ut_key = ticketKey (issue_key updatedIssue) team (issue_number updatedIssue),
                                ut_updatedAt = issue_updatedAt updatedIssue,
                                ut_url = issue_url updatedIssue,
                                ut_state = state\<rparr>\<rparr>))))))"

definition updateTicket2_handleRequest ::
    "LinearClient \<Rightarrow> UpdateTicketArgs \<Rightarrow> UpdatedTicketWithState UpdateTicketResponse io" where
  "updateTicket2_handleRequest c args =
     (if \<not> truthy (uta_apiKey args)
      then io_throw (McpError InvalidParams ''Linear API key is required'')
      else if \<not> truthy (uta_ticketId args)
      then io_throw (McpError InvalidParams ''Ticket ID or key is required'')
      else if \<not> hasUpdateField args
      then io_throw (McpError InvalidParams ''At least one field to update is required'')
      else if priority_out_of_range (uta_priority args)
      then io_throw (McpError InvalidParams ''Priority must be between 0 and 4'')
      else io_catch (updateTicket2_body c args)
             (outer_catch ''Error updating ticket:'' ''Failed to update ticket: ''))"

section \<open>update-project: \<open>src/server/requests/updateProjectHandler.ts\<close>\<close>

record UpdateProjectArgs =
  upa_apiKey :: string
  upa_projectId :: string
  upa_name :: "string option"
  upa_description :: "string option"
  upa_stateId :: "string option"
  upa_teamIds :: "string list option"
  upa_startDate :: "string option"
  upa_targetDate :: "string option"
  upa_progress :: "real option"
  upa_icon :: "string option"
  upa_color :: "string option"

record UpdatedProject =
  up_id :: string
  up_name :: string
  up_description :: "string option"
  up_state :: "string option"
  up_teams :: "Team list"
  up_startDate :: "string option"
  up_targetDate :: "string option"
  up_progress :: "real option"
  up_updatedAt :: string
  up_url :: string

record UpdateProjectResponse =
  upr_success :: bool
  upr_message :: string
  upr_project :: UpdatedProject

definition hasProjectUpdateField :: "UpdateProjectArgs \<Rightarrow> bool" where
  "hasProjectUpdateField args =
     (upa_name args \<noteq> None \<or> upa_description args \<noteq> None \<or> upa_stateId args \<noteq> None \<or>
      upa_teamIds args \<noteq> None \<or> upa_startDate args \<noteq> None \<or> upa_targetDate args \<noteq> None \<or>
      upa_progress args \<noteq> None \<or> upa_icon args \<noteq> None \<or> upa_color args \<noteq> None)"

definition progress_out_of_range :: "real option \<Rightarrow> bool" where
  "progress_out_of_range pr = (case pr of None \<Rightarrow> False | Some v \<Rightarrow> v < 0 \<or> v > 1)"

definition updateProject_updateData :: "UpdateProjectArgs \<Rightarrow> ProjectUpdate" where
  "updateProject_updateData args =
     \<lparr>pupd_name = upa_name args, pupd_description = upa_description args,
      pupd_stateId = upa_stateId args, pupd_teamIds = upa_teamIds args,
      pupd_startDate = upa_startDate args, pupd_targetDate = upa_targetDate args,
      pupd_progress = upa_progress args, pupd_icon = upa_icon args, pupd_color = upa_color args\<rparr>"

text \<open>Lines 141-166: one lookup per team id, all started before any is awaited, so every
  call is made; \<open>Promise.all\<close> fails when one of them does (with the first failure in the
  order of the ids here), else the teams found are kept in the order of the ids.\<close>

fun fetchTeams :: "LinearClient \<Rightarrow> string list \<Rightarrow> Team option list io" where
  "fetchTeams c [] = io_return []"
| "fetchTeams c (tid # tids) =
     (let one = io_bind (await (Teams (TeamIdEq tid)) (teams c (TeamIdEq tid)))
                  (\<lambda>nodes. io_return (map_option (\<lambda>teamData. formatTeam teamData ''TEAM'') (index_at nodes 0)));
          others = fetchTeams c tids
      in ((case fst one of
             Inl e \<Rightarrow> Inl e
           | Inr t \<Rightarrow> (case fst others of Inl e \<Rightarrow> Inl e | Inr ts \<Rightarrow> Inr (t # ts))),
          snd one @ snd others))"

definition projectTeams :: "LinearClient \<Rightarrow> string list option \<Rightarrow> Team list io" where
  "projectTeams c teamIds =
     (case teamIds of
        None \<Rightarrow> io_return []
      | Some ids \<Rightarrow>
          if length ids > 0 then
            io_catch
              (io_bind (fetchTeams c ids) (\<lambda>teamResults. io_return (List.map_filter id teamResults)))
              (\<lambda>error. io_bind (console_warn ''Error fetching teams:'' error) (\<lambda>_. io_return []))
          else io_return [])"

definition updateProject_body :: "LinearClient \<Rightarrow> UpdateProjectArgs \<Rightarrow> UpdateProjectResponse io" where
  "updateProject_body c args =
     (let updateData = updateProject_updateData args;
          q = \<lparr>pq_filter = Some (ProjectIdEq (upa_projectId args)), pq_first = None\<rparr>
      in io_bind (await (Projects q) (projects c q)) (\<lambda>nodes.
           case index_at nodes 0 of
             None \<Rightarrow> io_throw (McpError InternalError (''Project not found: '' @ upa_projectId args))
           | Some project \<Rightarrow>
               io_bind (await (UpdateProject (project_id project) updateData)
                          (updateProject c (project_id project) updateData))
                 (\<lambda>updateResult.
                    if \<not> pp_success updateResult
                    then io_throw (McpError InternalError (''Failed to update project: '' @ upa_projectId args))
                    else
                      (let updatedProject = pp_project updateResult in
                       io_bind (projectTeams c (project_teamIds updatedProject)) (\<lambda>teams.
                         io_return
                           \<lparr>upr_success = True,
                            upr_message = ''Project updated successfully'',
                            upr_project =
                              \<lparr>up_id = project_id updatedProject,
                               up_name = project_name updatedProject,
                               up_description = project_description updatedProject,
                               up_state = project_state updatedProject,
                               up_teams = teams,
                               up_startDate = project_startDate updatedProject,
                               up_targetDate = project_targetDate updatedProject,
                               up_progress = project_progress updatedProject,
                               up_updatedAt = project_updatedAt updatedProject,
                               up_url = project_url updatedProject\<rparr>\<rparr>)))))"

definition updateProject_handleRequest :: "LinearClient \<Rightarrow> UpdateProjectArgs \<Rightarrow> UpdateProjectResponse io" where
  "updateProject_handleRequest c args =
     (if \<not> truthy (upa_apiKey args)
      then io_throw (McpError InvalidParams ''Linear API key is required'')
      else if \<not> truthy (upa_projectId args)
      then io_throw (McpError InvalidParams ''Project ID is required'')
      else if \<not> hasProjectUpdateField args
      then io_throw (McpError InvalidParams ''At least one field to update is required'')
      else if progress_out_of_range (upa_progress args)
      then io_throw (McpError InvalidParams ''Progress must be between 0 and 1'')
      else io_catch (updateProject_body c args)
             (outer_catch ''Error updating project:'' ''Failed to update project: ''))"

section \<open>get-ticket: \<open>src/server/requests/getTicketByIdHandler.ts\<close>\<close>

record GetTicketByIdArgs =
  gta_apiKey :: string
  gta_ticketId :: string

record TicketResponse =
  tr_id :: string
  tr_title :: string
  tr_description :: "string option"
  tr_number :: int
  tr_key :: string
  tr_createdAt :: string
  tr_updatedAt :: string
  tr_dueDate :: "string option"
  tr_estimate :: "real option"
  tr_priority :: "real option"
  tr_assignee :: "User option"
  tr_team :: "Team option"
  tr_state :: "WorkflowState option"
  tr_labels :: "IssueLabel list"
  tr_url :: string

text \<open>Lines 121-134: the three variables the identifier is parsed into.\<close>

record parsed_id =
  issueId :: "string option"
  teamKey :: "string option"
  issueNumber :: "string option"

definition parseTicketId :: "string \<Rightarrow> parsed_id" where
  "parseTicketId ticketId =
     (if str_includes ticketId ''-'' then
        (let parts = js_split ticketId CHR ''-'' in
         \<lparr>issueId = None, teamKey = index_at parts 0, issueNumber = index_at parts 1\<rparr>)
      else \<lparr>issueId = Some ticketId, teamKey = None, issueNumber = None\<rparr>)"

text \<open>Lines 138-183: the query text and the variables follow \<open>issueId\<close>.\<close>

definition variables :: "parsed_id \<Rightarrow> gql_vars" where
  "variables p =
     (case issueId p of
        Some i \<Rightarrow>
          if truthy i then VarsId i
          else VarsTeamKeyNumber (teamKey p)
                 (if truthy_opt (issueNumber p) then parseInt_opt (issueNumber p) else Some 0)
      | None \<Rightarrow>
          VarsTeamKeyNumber (teamKey p)
            (if truthy_opt (issueNumber p) then parseInt_opt (issueNumber p) else Some 0))"

text \<open>Lines 203-226: the record built from the reply of the raw query.\<close>

definition formatGraphQLIssue :: "GraphQLIssue \<Rightarrow> TicketResponse" where
  "formatGraphQLIssue issue =
     \<lparr>tr_id = gql_id issue,
      tr_title = gql_title issue,
      tr_description = gql_description issue,
      tr_number = gql_number issue,
      tr_key = deriveKey (gql_team issue) (gql_number issue),
      tr_createdAt = gql_createdAt issue,
      tr_updatedAt = gql_updatedAt issue,
      tr_dueDate = gql_dueDate issue,
      tr_estimate = gql_estimate issue,
      tr_priority = gql_priority issue,
      tr_assignee = gql_assignee issue,
      tr_team = gql_team issue,
      tr_state = gql_state issue,
      tr_labels = (case gql_labels issue of Some nodes \<Rightarrow> nodes | None \<Rightarrow> []),
      tr_url = gql_url issue\<rparr>"

text \<open>Lines 185-236: the first path.\<close>

definition graphqlPath :: "LinearClient \<Rightarrow> string \<Rightarrow> parsed_id \<Rightarrow> TicketResponse io" where
  "graphqlPath c ticketId p =
     io_bind (await (RawRequest (variables p)) (request c (variables p))) (\<lambda>response.
       case (case resp_issue response of
               Some i \<Rightarrow> Some i
             | None \<Rightarrow> resp_issueByTeamKeyAndNumber response) of
         None \<Rightarrow> io_throw (McpError InternalError (''Ticket not found: '' @ ticketId))
       | Some issue \<Rightarrow> io_return (formatGraphQLIssue issue))"

text \<open>Lines 241-301: the issue again, through the structured query.\<close>

definition fallbackFindIssue :: "LinearClient \<Rightarrow> string \<Rightarrow> parsed_id \<Rightarrow> Issue option io" where
  "fallbackFindIssue c ticketId p =
     io_catch
       (if truthy_opt (teamKey p) \<and> truthy_opt (issueNumber p) then
          (let flt = IssueTeamKeyNumber (teamKey p) (parseInt_opt (issueNumber p))
           in io_bind (await (Issues flt True) (issues c flt True)) (first_or_not_found ticketId))
        else
          io_bind (await (Issues (IssueIdEq ticketId) True) (issues c (IssueIdEq ticketId) True))
            (first_or_not_found ticketId))
       (\<lambda>error. io_bind (console_error ''Error finding ticket:'' error)
          (\<lambda>_. io_throw (McpError InternalError (''Could not find ticket: '' @ ticketId))))"

text \<open>Lines 313-335: the assignee.\<close>

definition formatUser :: "User \<Rightarrow> User" where
  "formatUser userData =
     \<lparr>user_id = user_id userData,
      user_name = or_else (user_name userData) ''Unknown'',
      user_email = or_else (user_email userData) []\<rparr>"

definition fetchUserById :: "LinearClient \<Rightarrow> string \<Rightarrow> User option io" where
  "fetchUserById c uid =
     io_catch
       (io_bind (await (Users uid) (users c uid))
          (\<lambda>nodes. io_return (map_option formatUser (index_at nodes 0))))
       (\<lambda>error. io_bind (console_warn ''Error fetching assignee:'' error) (\<lambda>_. io_return None))"

text \<open>Lines 360-382: the team by the key parsed from the identifier.\<close>

definition fetchTeamByKey :: "LinearClient \<Rightarrow> string \<Rightarrow> Team option io" where
  "fetchTeamByKey c k =
     io_catch
       (io_bind (await (Teams (TeamKeyEq k)) (teams c (TeamKeyEq k)))
          (\<lambda>nodes. io_return (map_option (\<lambda>teamData. formatTeam teamData k) (index_at nodes 0))))
       (\<lambda>error. io_bind (console_warn ''Error fetching team by key:'' error) (\<lambda>_. io_return None))"

text \<open>Lines 338-382: by the issue's team id when it has one, else by the parsed key.\<close>

definition backfillTeam :: "LinearClient \<Rightarrow> Issue \<Rightarrow> parsed_id \<Rightarrow> Team option io" where
  "backfillTeam c issue p =
     (if truthy_opt (issue_teamId issue) then when_truthy (issue_teamId issue) (fetchTeamById c)
      else when_truthy (teamKey p) (fetchTeamByKey c))"

text \<open>Lines 410-437: the labels, from the whole catalogue; an id the catalogue lacks, and
  every id when the catalogue cannot be read, gets a placeholder.\<close>

definition placeholderLabel :: "string \<Rightarrow> IssueLabel" where
  "placeholderLabel labelId = \<lparr>label_id = labelId, label_name = ''Unknown'', label_color = ''#cccccc''\<rparr>"

definition labelFromCatalogue :: "IssueLabel list \<Rightarrow> string \<Rightarrow> IssueLabel" where
  "labelFromCatalogue allLabels labelId =
     (case find (\<lambda>l. label_id l = labelId) allLabels of
        Some foundLabel \<Rightarrow>
          \<lparr>label_id = label_id foundLabel,
           label_name = or_else (label_name foundLabel) ''Unknown'',
           label_color = or_else (label_color foundLabel) ''#cccccc''\<rparr>
      | None \<Rightarrow> placeholderLabel labelId)"

definition backfillLabels :: "LinearClient \<Rightarrow> string list option \<Rightarrow> IssueLabel list io" where
  "backfillLabels c labelIds =
     (case labelIds of
        None \<Rightarrow> io_return []
      | Some ids \<Rightarrow>
          if length ids > 0 then
            io_catch
              (io_bind (await IssueLabels (issueLabels c))
                 (\<lambda>allLabels. io_return (map (labelFromCatalogue allLabels) ids)))
              (\<lambda>error. io_bind (console_warn ''Error fetching labels:'' error)
                 (\<lambda>_. io_return (map placeholderLabel ids)))
          else io_return [])"

text \<open>Lines 311-461: the related entities one after the other, then the record.\<close>

definition backfill :: "LinearClient \<Rightarrow> Issue \<Rightarrow> parsed_id \<Rightarrow> TicketResponse io" where
  "backfill c issue p =
     io_bind (when_truthy (issue_assigneeId issue) (fetchUserById c)) (\<lambda>assignee.
     io_bind (backfillTeam c issue p) (\<lambda>team.
     io_bind (when_truthy (issue_stateId issue) (fetchStateById c)) (\<lambda>state.
     io_bind (backfillLabels c (issue_labelIds issue)) (\<lambda>labels.
       io_return
         \<lparr>tr_id = issue_id issue,
          tr_title = issue_title issue,
          tr_description = issue_description issue,
          tr_number = issue_number issue,
          tr_key = ticketKey (issue_key issue) team (issue_number issue),
          tr_createdAt = issue_createdAt issue,
          tr_updatedAt = issue_updatedAt issue,
          tr_dueDate = issue_dueDate issue,
          tr_estimate = issue_estimate issue,
          tr_priority = issue_priority issue,
          tr_assignee = assignee,
          tr_team = team,
          tr_state = state,
          tr_labels = labels,
          tr_url = issue_url issue\<rparr>))))"

text \<open>Lines 237-472: the body of \<open>catch (graphqlError)\<close>, which does not read the
  exception it caught.\<close>

definition fallbackPath :: "LinearClient \<Rightarrow> string \<Rightarrow> parsed_id \<Rightarrow> TicketResponse io" where
  "fallbackPath c ticketId p =
     io_bind (fallbackFindIssue c ticketId p) (\<lambda>found.
       case found of
         None \<Rightarrow> io_throw (McpError InternalError (''Ticket not found: '' @ ticketId))
       | Some issue \<Rightarrow> backfill c issue p)"

definition getTicketById_handleRequest :: "LinearClient \<Rightarrow> GetTicketByIdArgs \<Rightarrow> TicketResponse io" where
  "getTicketById_handleRequest c args =
     (if \<not> truthy (gta_apiKey args)
      then io_throw (McpError InvalidParams ''Linear API key is required'')
      else if \<not> truthy (gta_ticketId args)
      then io_throw (McpError InvalidParams ''Ticket ID or key is required'')
      else
        io_catch
          (let p = parseTicketId (gta_ticketId args) in
           io_catch (graphqlPath c (gta_ticketId args) p)
             (\<lambda>graphqlError. fallbackPath c (gta_ticketId args) p))
          (outer_catch ''Error retrieving ticket:'' ''Failed to retrieve ticket: ''))"

section \<open>get-projects (\<open>unnamed/part_001\<close>)\<close>

record GetProjectsArgs =
  gpa_apiKey :: string
  gpa_search :: "string option"
  gpa_status :: "string option"
  gpa_limit :: "real option"

record ProjectSummary =
  ps_id :: string
  ps_name :: string
  ps_description :: "string option"
  ps_status :: string
  ps_startDate :: "string option"
  ps_targetDate :: "string option"
  ps_progress :: "real option"
  ps_url :: string

record ProjectListResponse =
  plr_projects :: "ProjectSummary list"
  plr_total :: nat

text \<open>Lines 44-62: the state filter. \<open>statusMap[args.status]\<close> finds the five keys
  of the object literal and, for any other status, the properties the literal inherits from
  \<open>Object.prototype\<close>: functions, and the prototype itself for \<open>__proto__\<close>, all of
  them truthy.\<close>

definition statusMap :: "(string \<times> string) list" where
  "statusMap =
     [(''planned'', ''planned''), (''started'', ''started''), (''paused'', ''paused''),
      (''completed'', ''completed''), (''canceled'', ''canceled'')]"

definition inheritedKeys :: "string list" where
  "inheritedKeys =
     [''constructor'', ''toString'', ''toLocaleString'', ''valueOf'', ''hasOwnProperty'',
      ''isPrototypeOf'', ''propertyIsEnumerable'', ''__proto__'', ''__defineGetter__'',
      ''__defineSetter__'', ''__lookupGetter__'', ''__lookupSetter__'']"

definition statusFilter :: "string option \<Rightarrow> project_filter" where
  "statusFilter status =
     (if truthy_opt status then
        (case map_of statusMap (the status) of
           Some stateType \<Rightarrow> if truthy stateType then ProjectStateTypeEq stateType else ProjectAny
         | None \<Rightarrow>
             if the status \<in> set inheritedKeys then ProjectStateTypeInherited (the status)
             else ProjectAny)
      else ProjectAny)"

text \<open>Line 65: \<open>args.limit && args.limit > 0 ? Math.min(args.limit, 50) : 10\<close>.\<close>

definition effectiveLimit :: "real option \<Rightarrow> real" where
  "effectiveLimit l =
     (case l of
        None \<Rightarrow> 10
      | Some v \<Rightarrow> if v \<noteq> 0 \<and> v > 0 then min v 50 else 10)"

text \<open>Lines 81-87: the predicate of the search.\<close>

definition matchesSearch :: "string \<Rightarrow> Project \<Rightarrow> bool" where
  "matchesSearch searchTerm project =
     (let nameMatch = str_includes (toLowerCase (project_name project)) searchTerm;
          descMatch = (if truthy_opt (project_description project)
                       then str_includes (toLowerCase (the (project_description project))) searchTerm
                       else False)
      in nameMatch \<or> descMatch)"

text \<open>\<open>Array.prototype.slice(0, n)\<close> for a positive number \<open>n\<close>, as the limit always
  is: the end is truncated to an integer.\<close>

definition slice0 :: "real \<Rightarrow> 'a list \<Rightarrow> 'a list" where
  "slice0 n xs = take (nat \<lfloor>n\<rfloor>) xs"

definition formatProject :: "Project \<Rightarrow> ProjectSummary" where
  "formatProject project =
     \<lparr>ps_id = project_id project,
      ps_name = project_name project,
      ps_description = project_description project,
      ps_status = (if truthy_opt (project_state project) then the (project_state project) else ''Unknown''),
      ps_startDate = project_startDate project,
      ps_targetDate = project_targetDate project,
      ps_progress = project_progress project,
      ps_url = project_url project\<rparr>"

text \<open>Lines 67-95: the projects, searched or filtered.\<close>

definition fetchProjects :: "LinearClient \<Rightarrow> GetProjectsArgs \<Rightarrow> Project list io" where
  "fetchProjects c args =
     (let flt = statusFilter (gpa_status args);
          limit = effectiveLimit (gpa_limit args)
      in if truthy_opt (gpa_search args) then
           (let q = \<lparr>pq_filter = None, pq_first = Some (limit * 2)\<rparr>;
                searchTerm = toLowerCase (the (gpa_search args))
            in io_bind (await (Projects q) (projects c q))
                 (\<lambda>nodes. io_return (slice0 limit (filter (matchesSearch searchTerm) nodes))))
         else
           (let q = \<lparr>pq_filter = Some flt, pq_first = Some limit\<rparr>
            in await (Projects q) (projects c q)))"

definition getProjects_handleRequest :: "LinearClient \<Rightarrow> GetProjectsArgs \<Rightarrow> ProjectListResponse io" where
  "getProjects_handleRequest c args =
     io_catch
       (if \<not> truthy (gpa_apiKey args) then io_throw (McpError InvalidParams ''API key is required'')
        else
          io_bind (fetchProjects c args) (\<lambda>nodes.
            (let formattedProjects = map formatProject nodes
             in io_return \<lparr>plr_projects = formattedProjects, plr_total = length formattedProjects\<rparr>)))
       (outer_catch ''Error fetching projects:'' ''Failed to fetch Linear projects: '')"

section \<open>Sample trackers and requests\<close>

text \<open>A tracker that knows no ticket and no project: every query answers with an empty
  list, the raw query with neither key, and the mutations fail.\<close>

definition noTickets :: LinearClient where
  "noTickets =
     \<lparr>request = (\<lambda>v. Inr \<lparr>resp_issue = None, resp_issueByTeamKeyAndNumber = None\<rparr>),
      issues = (\<lambda>f e. Inr []),
      users = (\<lambda>i. Inr []),
      teams = (\<lambda>f. Inr []),
      workflowStates = (\<lambda>f. Inr []),
      issueLabels = Inr [],
      updateIssue = (\<lambda>i u. Inl (Error ''not found'')),
      projects = (\<lambda>q. Inr []),
      updateProject = (\<lambda>i u. Inl (Error ''not found''))\<rparr>"

text \<open>An update request for a ticket with only the priority set, or nothing at all, and
  an update request for a project with nothing to update.\<close>

definition ticketArgs :: "string \<Rightarrow> real option \<Rightarrow> UpdateTicketArgs" where
  "ticketArgs t pr =
     \<lparr>uta_apiKey = ''lin_api_1'', uta_ticketId = t, uta_title = None, uta_description = None,
      uta_stateId = None, uta_assigneeId = None, uta_priority = pr, uta_dueDate = None,
      uta_estimate = None\<rparr>"

definition projectArgs :: UpdateProjectArgs where
  "projectArgs =
     \<lparr>upa_apiKey = ''lin_api_1'', upa_projectId = ''p-1'', upa_name = None, upa_description = None,
      upa_stateId = None, upa_teamIds = None, upa_startDate = None, upa_targetDate = None,
      upa_progress = None, upa_icon = None, upa_color = None\<rparr>"

text \<open>Four projects, returned whatever the query and whatever the page size asked for,
  and a search among them with the limit 2.\<close>

definition mkProject :: "string \<Rightarrow> string \<Rightarrow> string option \<Rightarrow> Project" where
  "mkProject i n d =
     \<lparr>project_id = i, project_name = n, project_description = d, project_state = Some ''started'',
      project_teamIds = None, project_startDate = None, project_targetDate = None,
      project_progress = None, project_updatedAt = ''2024-01-01'', project_url = ''https://linear.app/p''\<rparr>"

definition fourProjects :: LinearClient where
  "fourProjects =
     noTickets\<lparr>projects := (\<lambda>q. Inr [mkProject ''p1'' ''Alpha'' None,
                                        mkProject ''p2'' ''Beta'' (Some ''the ALPHA sequel''),
                                        mkProject ''p3'' ''Gamma'' None,
                                        mkProject ''p4'' ''alphabet'' None])\<rparr>"

definition searchArgs :: GetProjectsArgs where
  "searchArgs = \<lparr>gpa_apiKey = ''lin_api_1'', gpa_search = Some ''alpha'', gpa_status = None, gpa_limit = Some 2\<rparr>"

text \<open>The same limit without a search term, for the started projects.\<close>

definition plainArgs :: GetProjectsArgs where
  "plainArgs = \<lparr>gpa_apiKey = ''lin_api_1'', gpa_search = None, gpa_status = Some ''started'', gpa_limit = Some 2\<rparr>"

text \<open>The ticket ABC-7 of team Core, as the raw query and as the structured query
  return it.\<close>

definition coreTeam :: Team where
  "coreTeam = \<lparr>team_id = ''t1'', team_name = ''Core'', team_key = ''ABC''\<rparr>"

definition sampleIssue :: Issue where
  "sampleIssue =
     \<lparr>issue_id = ''i1'', issue_title = ''Fix login'', issue_description = None, issue_number = 7,
      issue_priority = Some 2, issue_estimate = None, issue_dueDate = None,
      issue_teamId = Some ''t1'', issue_assigneeId = Some ''u1'', issue_stateId = Some ''s1'',
      issue_labelIds = Some [''l1'', ''l2''], issue_createdAt = ''2024-01-01'',
      issue_updatedAt = ''2024-01-02'', issue_url = ''https://linear.app/i1'', issue_key = None\<rparr>"

definition sampleGraphQLIssue :: GraphQLIssue where
  "sampleGraphQLIssue =
     \<lparr>gql_id = ''i1'', gql_title = ''Fix login'', gql_description = None, gql_number = 7,
      gql_priority = Some 2, gql_estimate = None, gql_dueDate = None,
      gql_createdAt = ''2024-01-01'', gql_updatedAt = ''2024-01-02'',
      gql_url = ''https://linear.app/i1'', gql_team = Some coreTeam, gql_assignee = None,
      gql_state = None, gql_labels = None\<rparr>"

text \<open>A tracker whose raw query answers, and one whose raw query fails while the
  structured queries answer.\<close>

definition graphqlTracker :: LinearClient where
  "graphqlTracker =
     noTickets\<lparr>request := (\<lambda>v. Inr \<lparr>resp_issue = None,
                                       resp_issueByTeamKeyAndNumber = Some sampleGraphQLIssue\<rparr>)\<rparr>"

definition fallbackTracker :: LinearClient where
  "fallbackTracker =
     noTickets\<lparr>request := (\<lambda>v. Inl (Error ''Entity not found'')),
               issues := (\<lambda>f e. Inr [sampleIssue]),
               teams := (\<lambda>f. Inr [coreTeam])\<rparr>"

definition getArgs :: "string \<Rightarrow> GetTicketByIdArgs" where
  "getArgs t = \<lparr>gta_apiKey = ''lin_api_1'', gta_ticketId = t\<rparr>"

text \<open>A tracker on which the issue is found by the structured query and every lookup of
  a related entity fails, and the record get-ticket then returns.\<close>

definition lookupsFail :: LinearClient where
  "lookupsFail =
     fallbackTracker\<lparr>users := (\<lambda>i. Inl (Error ''503'')),
                     teams := (\<lambda>f. Inl (Error ''503'')),
                     workflowStates := (\<lambda>f. Inl (Error ''503'')),
                     issueLabels := Inl (Error ''503'')\<rparr>"

definition degradedRecord :: TicketResponse where
  "degradedRecord =
     \<lparr>tr_id = ''i1'', tr_title = ''Fix login'', tr_description = None, tr_number = 7,
      tr_key = ''ISSUE-7'', tr_createdAt = ''2024-01-01'', tr_updatedAt = ''2024-01-02'',
      tr_dueDate = None, tr_estimate = None, tr_priority = Some 2, tr_assignee = None,
      tr_team = None, tr_state = None,
      tr_labels = [\<lparr>label_id = ''l1'', label_name = ''Unknown'', label_color = ''#cccccc''\<rparr>,
                   \<lparr>label_id = ''l2'', label_name = ''Unknown'', label_color = ''#cccccc''\<rparr>],
      tr_url = ''https://linear.app/i1''\<rparr>"

text \<open>Two teams' workflows, one without a final state, and a request to move ABC-7 to
  the state named \<open>s\<close>.\<close>

definition todoState :: WorkflowState where
  "todoState = \<lparr>state_id = ''s1'', state_name = ''Todo'', state_type = ''unstarted''\<rparr>"

definition doneState :: WorkflowState where
  "doneState = \<lparr>state_id = ''s2'', state_name = ''Done'', state_type = ''completed''\<rparr>"

definition noDoneTracker :: LinearClient where
  "noDoneTracker = fallbackTracker\<lparr>workflowStates := (\<lambda>f. Inr [todoState])\<rparr>"

definition doneTracker :: LinearClient where
  "doneTracker =
     fallbackTracker\<lparr>workflowStates := (\<lambda>f. Inr [todoState, doneState]),
                     updateIssue := (\<lambda>i u. Inr \<lparr>ip_success = True, ip_issue = sampleIssue\<rparr>)\<rparr>"

definition doneArgs :: "string \<Rightarrow> UpdateTicketArgs" where
  "doneArgs s = (ticketArgs ''ABC-7'' None)\<lparr>uta_stateId := Some s\<rparr>"

text \<open>The same ticket found by the structured query with a key of its own, from the
  team it was in before, and the record get-ticket returns for it; and a ticket with the
  number 524, answered by the raw query.\<close>

definition nativeKeyTracker :: LinearClient where
  "nativeKeyTracker = fallbackTracker\<lparr>issues := (\<lambda>f e. Inr [sampleIssue\<lparr>issue_key := Some ''OLD-3''\<rparr>])\<rparr>"

definition nativeKeyRecord :: TicketResponse where
  "nativeKeyRecord =
     \<lparr>tr_id = ''i1'', tr_title = ''Fix login'', tr_description = None, tr_number = 7,
      tr_key = ''OLD-3'', tr_createdAt = ''2024-01-01'', tr_updatedAt = ''2024-01-02'',
      tr_dueDate = None, tr_estimate = None, tr_priority = Some 2, tr_assignee = None,
      tr_team = Some coreTeam, tr_state = None,
      tr_labels = [\<lparr>label_id = ''l1'', label_name = ''Unknown'', label_color = ''#cccccc''\<rparr>,
                   \<lparr>label_id = ''l2'', label_name = ''Unknown'', label_color = ''#cccccc''\<rparr>],
      tr_url = ''https://linear.app/i1''\<rparr>"

definition numberedTracker :: LinearClient where
  "numberedTracker =
     noTickets\<lparr>request := (\<lambda>v. Inr \<lparr>resp_issue = Some (sampleGraphQLIssue\<lparr>gql_number := 524\<rparr>),
                                       resp_issueByTeamKeyAndNumber = None\<rparr>)\<rparr>"





section \<open>Results and events of composed runs\<close>

lemma fst_io_bind: "fst (io_bind m f) = (case fst m of Inl e \<Rightarrow> Inl e | Inr x \<Rightarrow> fst (f x))"
  by (auto simp: io_bind_def split: prod.splits sum.splits)

lemma snd_io_bind: "snd (io_bind m f) = snd m @ (case fst m of Inl e \<Rightarrow> [] | Inr x \<Rightarrow> snd (f x))"
  by (auto simp: io_bind_def split: prod.splits sum.splits)

lemma fst_io_catch: "fst (io_catch m h) = (case fst m of Inl e \<Rightarrow> fst (h e) | Inr x \<Rightarrow> Inr x)"
  by (auto simp: io_catch_def split: prod.splits sum.splits)

lemma snd_io_catch: "snd (io_catch m h) = snd m @ (case fst m of Inl e \<Rightarrow> snd (h e) | Inr x \<Rightarrow> [])"
  by (auto simp: io_catch_def split: prod.splits sum.splits)

lemmas io_fst_snd = fst_io_bind snd_io_bind fst_io_catch snd_io_catch

lemma io_simps [simp]:
  "fst (io_return x) = Inr x" "snd (io_return x) = []"
  "fst (io_throw e) = Inl e" "snd (io_throw e) = []"
  "fst (await k a) = a" "snd (await k a) = [Remote k]"
  "fst (console_error s e) = Inr ()" "snd (console_error s e) = [ConsoleError s e]"
  "fst (console_warn s e) = Inr ()" "snd (console_warn s e) = [ConsoleWarn s e]"
  by (simp_all add: io_return_def io_throw_def await_def console_error_def console_warn_def)

lemma outer_catch_throws [simp]: "fst (outer_catch l pre err) \<noteq> Inr x"
  by (cases err) (simp_all add: outer_catch_def fst_io_bind)

lemma calls_append [simp]: "calls (xs @ ys) = calls xs @ calls ys"
  by (induction xs rule: calls.induct) simp_all

section \<open>Strings: searching and splitting\<close>

lemma str_includes_sublist: "str_includes s t = sublist t s"
  by (induction s) (simp_all add: sublist_Cons_right)

lemma str_includes_char: "str_includes s [d] = (d \<in> set s)"
  by (induction s) (auto simp: prefix_def)

lemma js_split_nonempty: "js_split s d \<noteq> []"
  by (induction s) simp_all

lemma js_split_first: "index_at (js_split s d) 0 = Some (takeWhile (\<lambda>x. x \<noteq> d) s)"
proof (induction s)
  case Nil
  then show ?case by simp
next
  case (Cons x s)
  then show ?case
    by (cases "js_split s d") (auto simp: js_split_nonempty)
qed

lemma js_split_second:
  "d \<in> set s \<Longrightarrow>
   index_at (js_split s d) (Suc 0) = Some (takeWhile (\<lambda>x. x \<noteq> d) (tl (dropWhile (\<lambda>x. x \<noteq> d) s)))"
proof (induction s)
  case Nil
  then show ?case by simp
next
  case (Cons x s)
  show ?case
  proof (cases "x = d")
    case True
    then show ?thesis using js_split_first [of s d] by simp
  next
    case False
    with Cons have "d \<in> set s" by simp
    from Cons.IH [OF this] False show ?thesis
      by (cases "js_split s d") (simp_all add: js_split_nonempty)
  qed
qed

section \<open>Validation before the first remote call\<close>

lemma findIssue_first_call:
  "\<exists>f rest. snd (findIssue c t) = Remote (Issues f False) # rest"
  by (simp add: findIssue_def io_fst_snd Let_def)

text \<open>
  C7. An update-ticket request whose priority lies outside the closed interval from 0 to 4
  fails with \<open>InvalidParams\<close> and leaves no event behind: no remote call was made. A
  priority inside the interval, its ends 0 and 4 included, passes the validation: with an
  API key and an identifier, the run goes on to its first remote call, the issue query.
\<close>

theorem priority_validation:
  assumes "uta_priority args = Some p"
  shows "(p < 0 \<or> 4 < p \<longrightarrow>
           (\<exists>m. updateTicket_handleRequest c args = (Inl (McpError InvalidParams m), []))) \<and>
         (0 \<le> p \<and> p \<le> 4 \<longrightarrow> truthy (uta_apiKey args) \<longrightarrow> truthy (uta_ticketId args) \<longrightarrow>
           (\<exists>f rest. snd (updateTicket_handleRequest c args) = Remote (Issues f False) # rest))"
proof (intro conjI impI)
  assume "p < 0 \<or> 4 < p"
  then show "\<exists>m. updateTicket_handleRequest c args = (Inl (McpError InvalidParams m), [])"
    using assms by (auto simp: updateTicket_handleRequest_def priority_out_of_range_def io_throw_def)
next
  assume r: "0 \<le> p \<and> p \<le> 4" and k: "truthy (uta_apiKey args)" and t: "truthy (uta_ticketId args)"
  have h: "hasUpdateField args" using assms by (simp add: hasUpdateField_def)
  have np: "\<not> priority_out_of_range (uta_priority args)"
    using assms r by (simp add: priority_out_of_range_def)
  obtain f rest where fr: "snd (findIssue c (uta_ticketId args)) = Remote (Issues f False) # rest"
    using findIssue_first_call by blast
  show "\<exists>f rest. snd (updateTicket_handleRequest c args) = Remote (Issues f False) # rest"
    using h np k t fr
    by (simp add: updateTicket_handleRequest_def updateTicket_body_def io_fst_snd Let_def)
qed

theorem priority_validation_witness:
  "(\<exists>m. updateTicket_handleRequest noTickets (ticketArgs ''ABC-7'' (Some 5)) = (Inl (McpError InvalidParams m), [])) \<and>
   (\<exists>m. updateTicket_handleRequest noTickets (ticketArgs ''ABC-7'' (Some (-1))) = (Inl (McpError InvalidParams m), [])) \<and>
   (\<exists>f rest. snd (updateTicket_handleRequest noTickets (ticketArgs ''ABC-7'' (Some 0))) = Remote (Issues f False) # rest) \<and>
   (\<exists>f rest. snd (updateTicket_handleRequest noTickets (ticketArgs ''ABC-7'' (Some 4))) = Remote (Issues f False) # rest)"
  using priority_validation [of "ticketArgs ''ABC-7'' (Some 5)" 5 noTickets]
        priority_validation [of "ticketArgs ''ABC-7'' (Some (-1))" "-1" noTickets]
        priority_validation [of "ticketArgs ''ABC-7'' (Some 0)" 0 noTickets]
        priority_validation [of "ticketArgs ''ABC-7'' (Some 4)" 4 noTickets]
  by (simp add: ticketArgs_def truthy_def)

text \<open>
  C9. An update-ticket request (either version of the handler) with title, description,
  stateId, assigneeId, priority, dueDate and estimate all undefined, and an update-project
  request with name, description, stateId, teamIds, startDate, targetDate, progress, icon
  and color all undefined, fail with \<open>InvalidParams\<close> and leave no event behind: no
  remote call was made. When the API key and the identifier are there, the message is
  "At least one field to update is required".
\<close>

theorem no_update_field_rejected:
  "(uta_title ta = None \<and> uta_description ta = None \<and> uta_stateId ta = None \<and>
    uta_assigneeId ta = None \<and> uta_priority ta = None \<and> uta_dueDate ta = None \<and>
    uta_estimate ta = None \<longrightarrow>
      (\<exists>m. updateTicket_handleRequest c ta = (Inl (McpError InvalidParams m), [])) \<and>
      (\<exists>m. updateTicket2_handleRequest c ta = (Inl (McpError InvalidParams m), [])) \<and>
      (truthy (uta_apiKey ta) \<and> truthy (uta_ticketId ta) \<longrightarrow>
         updateTicket_handleRequest c ta =
           (Inl (McpError InvalidParams ''At least one field to update is required''), []) \<and>
         updateTicket2_handleRequest c ta =
           (Inl (McpError InvalidParams ''At least one field to update is required''), []))) \<and>
   (upa_name pa = None \<and> upa_description pa = None \<and> upa_stateId pa = None \<and>
    upa_teamIds pa = None \<and> upa_startDate pa = None \<and> upa_targetDate pa = None \<and>
    upa_progress pa = None \<and> upa_icon pa = None \<and> upa_color pa = None \<longrightarrow>
      (\<exists>m. updateProject_handleRequest c pa = (Inl (McpError InvalidParams m), [])) \<and>
      (truthy (upa_apiKey pa) \<and> truthy (upa_projectId pa) \<longrightarrow>
         updateProject_handleRequest c pa =
           (Inl (McpError InvalidParams ''At least one field to update is required''), [])))"
  by (simp add: updateTicket_handleRequest_def updateTicket2_handleRequest_def
        updateProject_handleRequest_def hasUpdateField_def hasProjectUpdateField_def io_throw_def)

theorem no_update_field_rejected_witness:
  "updateTicket_handleRequest noTickets (ticketArgs ''ABC-7'' None) =
     (Inl (McpError InvalidParams ''At least one field to update is required''), []) \<and>
   updateTicket2_handleRequest noTickets (ticketArgs ''ABC-7'' None) =
     (Inl (McpError InvalidParams ''At least one field to update is required''), []) \<and>
   updateProject_handleRequest noTickets projectArgs =
     (Inl (McpError InvalidParams ''At least one field to update is required''), [])"
  using no_update_field_rejected [of "ticketArgs ''ABC-7'' None" noTickets projectArgs]
  by (simp add: ticketArgs_def projectArgs_def truthy_def)

section \<open>get-projects: the page size and the search\<close>

lemma matchesSearch_iff:
  "matchesSearch t p =
     (sublist t (toLowerCase (project_name p)) \<or>
      (\<exists>d. project_description p = Some d \<and> d \<noteq> [] \<and> sublist t (toLowerCase d)))"
  by (cases "project_description p")
     (auto simp: matchesSearch_def str_includes_sublist truthy_opt_def truthy_def Let_def)

lemma effectiveLimit_pos: "0 < effectiveLimit l"
  by (simp add: effectiveLimit_def split: option.splits)

lemma effectiveLimit_cases:
  "effectiveLimit l = (case l of None \<Rightarrow> 10 | Some v \<Rightarrow> if 0 < v then min v 50 else 10)"
  by (auto simp: effectiveLimit_def split: option.splits)

lemma slice0_length: "0 \<le> n \<Longrightarrow> real (length (slice0 n xs)) \<le> n"
  by (simp add: slice0_def min_def) linarith

lemma fetchProjects_search:
  assumes "gpa_search args = Some s" "s \<noteq> []"
  shows "fetchProjects c args =
           (case projects c \<lparr>pq_filter = None, pq_first = Some (effectiveLimit (gpa_limit args) * 2)\<rparr> of
              Inl e \<Rightarrow> Inl e
            | Inr nodes \<Rightarrow> Inr (slice0 (effectiveLimit (gpa_limit args))
                                  (filter (matchesSearch (toLowerCase s)) nodes)),
            [Remote (Projects \<lparr>pq_filter = None, pq_first = Some (effectiveLimit (gpa_limit args) * 2)\<rparr>)])"
  using assms
  by (auto simp: fetchProjects_def Let_def truthy_opt_def truthy_def io_bind_def await_def io_return_def
           split: sum.splits)

lemma fetchProjects_plain:
  assumes "gpa_search args = None \<or> gpa_search args = Some []"
  shows "fetchProjects c args =
           (projects c \<lparr>pq_filter = Some (statusFilter (gpa_status args)),
                         pq_first = Some (effectiveLimit (gpa_limit args))\<rparr>,
            [Remote (Projects \<lparr>pq_filter = Some (statusFilter (gpa_status args)),
                               pq_first = Some (effectiveLimit (gpa_limit args))\<rparr>)])"
  using assms
  by (auto simp: fetchProjects_def Let_def truthy_opt_def truthy_def await_def)

lemma getProjects_ok:
  assumes "fst (getProjects_handleRequest c args) = Inr r"
  shows "\<exists>nodes. fst (fetchProjects c args) = Inr nodes \<and>
           r = \<lparr>plr_projects = map formatProject nodes, plr_total = length (map formatProject nodes)\<rparr> \<and>
           snd (getProjects_handleRequest c args) = snd (fetchProjects c args)"
proof -
  from assms have key: "truthy (gpa_apiKey args)"
    by (auto simp: getProjects_handleRequest_def io_fst_snd split: if_splits)
  with assms show ?thesis
    by (auto simp: getProjects_handleRequest_def io_fst_snd Let_def split: sum.splits)
qed

lemma search_run:
  "fst (getProjects_handleRequest fourProjects searchArgs) =
     Inr \<lparr>plr_projects = [formatProject (mkProject ''p1'' ''Alpha'' None),
                          formatProject (mkProject ''p2'' ''Beta'' (Some ''the ALPHA sequel''))],
          plr_total = 2\<rparr>"
  by code_simp

lemma plain_run:
  "fst (getProjects_handleRequest fourProjects plainArgs) =
     Inr \<lparr>plr_projects = [formatProject (mkProject ''p1'' ''Alpha'' None),
                          formatProject (mkProject ''p2'' ''Beta'' (Some ''the ALPHA sequel'')),
                          formatProject (mkProject ''p3'' ''Gamma'' None),
                          formatProject (mkProject ''p4'' ''alphabet'' None)],
          plr_total = 4\<rparr>"
  by code_simp

lemma sample_filters:
  "statusFilter (Some ''started'') = ProjectStateTypeEq ''started''"
  "statusFilter (Some ''toString'') = ProjectStateTypeInherited ''toString''"
  "statusFilter (Some ''open'') = ProjectAny"
  "statusFilter None = ProjectAny"
  by code_simp+

text \<open>
  C10, as the code has it. The bound of a get-projects request is \<open>min(limit, 50)\<close>
  for a positive limit and 10 for an absent or non-positive one. With a search term the
  handler makes one call, for twice the bound and without a filter, keeps the projects
  whose lower-cased name or non-empty description contains the lower-cased term, and cuts
  the list to the bound: it returns at most that many. Without a search term the handler
  makes one call, for the state filter and \<open>first\<close> set to the bound, and returns the
  page as the tracker sends it, uncut: the number of projects is that of the page. The
  total is the number of projects returned.
\<close>

theorem projects_returned:
  assumes ok: "fst (getProjects_handleRequest c args) = Inr r"
  shows "plr_total r = length (plr_projects r) \<and>
         effectiveLimit (gpa_limit args) =
           (case gpa_limit args of None \<Rightarrow> 10 | Some v \<Rightarrow> if 0 < v then min v 50 else 10) \<and>
         (\<forall>s. gpa_search args = Some s \<and> s \<noteq> [] \<longrightarrow>
            real (length (plr_projects r)) \<le> effectiveLimit (gpa_limit args) \<and>
            (\<forall>v. gpa_limit args = Some v \<and> 0 < v \<longrightarrow> real (length (plr_projects r)) \<le> min v 50) \<and>
            (gpa_limit args = None \<or> (\<exists>v. gpa_limit args = Some v \<and> v \<le> 0) \<longrightarrow>
               length (plr_projects r) \<le> 10) \<and>
            calls (snd (getProjects_handleRequest c args)) =
              [Projects \<lparr>pq_filter = None, pq_first = Some (effectiveLimit (gpa_limit args) * 2)\<rparr>] \<and>
            (\<exists>nodes. projects c \<lparr>pq_filter = None, pq_first = Some (effectiveLimit (gpa_limit args) * 2)\<rparr> = Inr nodes \<and>
               plr_projects r =
                 map formatProject
                   (take (nat \<lfloor>effectiveLimit (gpa_limit args)\<rfloor>)
                      (filter (\<lambda>p. sublist (toLowerCase s) (toLowerCase (project_name p)) \<or>
                                    (\<exists>d. project_description p = Some d \<and> d \<noteq> [] \<and>
                                         sublist (toLowerCase s) (toLowerCase d))) nodes)))) \<and>
         (gpa_search args = None \<or> gpa_search args = Some [] \<longrightarrow>
            calls (snd (getProjects_handleRequest c args)) =
              [Projects \<lparr>pq_filter = Some (statusFilter (gpa_status args)),
                         pq_first = Some (effectiveLimit (gpa_limit args))\<rparr>] \<and>
            (\<exists>nodes. projects c \<lparr>pq_filter = Some (statusFilter (gpa_status args)),
                                  pq_first = Some (effectiveLimit (gpa_limit args))\<rparr> = Inr nodes \<and>
               plr_projects r = map formatProject nodes))"
proof -
  let ?b = "effectiveLimit (gpa_limit args)"
  from getProjects_ok [OF ok] obtain fetched where fp: "fst (fetchProjects c args) = Inr fetched"
    and r: "r = \<lparr>plr_projects = map formatProject fetched, plr_total = length (map formatProject fetched)\<rparr>"
    and ev: "snd (getProjects_handleRequest c args) = snd (fetchProjects c args)"
    by blast
  have c1: "plr_total r = length (plr_projects r)" using r by simp
  have c2: "?b = (case gpa_limit args of None \<Rightarrow> 10 | Some v \<Rightarrow> if 0 < v then min v 50 else 10)"
    by (rule effectiveLimit_cases)
  have c3: "\<forall>s. gpa_search args = Some s \<and> s \<noteq> [] \<longrightarrow>
            real (length (plr_projects r)) \<le> ?b \<and>
            (\<forall>v. gpa_limit args = Some v \<and> 0 < v \<longrightarrow> real (length (plr_projects r)) \<le> min v 50) \<and>
            (gpa_limit args = None \<or> (\<exists>v. gpa_limit args = Some v \<and> v \<le> 0) \<longrightarrow>
               length (plr_projects r) \<le> 10) \<and>
            calls (snd (getProjects_handleRequest c args)) =
              [Projects \<lparr>pq_filter = None, pq_first = Some (?b * 2)\<rparr>] \<and>
            (\<exists>nodes. projects c \<lparr>pq_filter = None, pq_first = Some (?b * 2)\<rparr> = Inr nodes \<and>
               plr_projects r =
                 map formatProject
                   (take (nat \<lfloor>?b\<rfloor>)
                      (filter (\<lambda>p. sublist (toLowerCase s) (toLowerCase (project_name p)) \<or>
                                    (\<exists>d. project_description p = Some d \<and> d \<noteq> [] \<and>
                                         sublist (toLowerCase s) (toLowerCase d))) nodes)))"
  proof (intro allI impI)
    fix s assume s: "gpa_search args = Some s \<and> s \<noteq> []"
    note run = fetchProjects_search [OF conjunct1 [OF s] conjunct2 [OF s], of c]
    from fp run obtain raw where raw: "projects c \<lparr>pq_filter = None, pq_first = Some (?b * 2)\<rparr> = Inr raw"
      and n: "fetched = slice0 ?b (filter (matchesSearch (toLowerCase s)) raw)"
      by (auto split: sum.splits)
    have len: "real (length (plr_projects r)) \<le> ?b"
      using r n slice0_length [of ?b] effectiveLimit_pos [of "gpa_limit args"] by simp
    have l1: "\<forall>v. gpa_limit args = Some v \<and> 0 < v \<longrightarrow> real (length (plr_projects r)) \<le> min v 50"
      using len by (auto simp: effectiveLimit_def)
    have l2: "gpa_limit args = None \<or> (\<exists>v. gpa_limit args = Some v \<and> v \<le> 0) \<longrightarrow>
               length (plr_projects r) \<le> 10"
      using len by (auto simp: effectiveLimit_def)
    have cl: "calls (snd (getProjects_handleRequest c args)) =
              [Projects \<lparr>pq_filter = None, pq_first = Some (?b * 2)\<rparr>]"
      using ev run by simp
    have "filter (matchesSearch (toLowerCase s)) raw =
          filter (\<lambda>p. sublist (toLowerCase s) (toLowerCase (project_name p)) \<or>
                       (\<exists>d. project_description p = Some d \<and> d \<noteq> [] \<and>
                            sublist (toLowerCase s) (toLowerCase d))) raw"
      by (rule filter_cong) (simp_all add: matchesSearch_iff)
    with raw n r have ex: "\<exists>nodes. projects c \<lparr>pq_filter = None, pq_first = Some (?b * 2)\<rparr> = Inr nodes \<and>
               plr_projects r =
                 map formatProject
                   (take (nat \<lfloor>?b\<rfloor>)
                      (filter (\<lambda>p. sublist (toLowerCase s) (toLowerCase (project_name p)) \<or>
                                    (\<exists>d. project_description p = Some d \<and> d \<noteq> [] \<and>
                                         sublist (toLowerCase s) (toLowerCase d))) nodes))"
      by (simp add: slice0_def)
    from len l1 l2 cl ex show "real (length (plr_projects r)) \<le> ?b \<and>
            (\<forall>v. gpa_limit args = Some v \<and> 0 < v \<longrightarrow> real (length (plr_projects r)) \<le> min v 50) \<and>
            (gpa_limit args = None \<or> (\<exists>v. gpa_limit args = Some v \<and> v \<le> 0) \<longrightarrow>
               length (plr_projects r) \<le> 10) \<and>
            calls (snd (getProjects_handleRequest c args)) =
              [Projects \<lparr>pq_filter = None, pq_first = Some (?b * 2)\<rparr>] \<and>
            (\<exists>nodes. projects c \<lparr>pq_filter = None, pq_first = Some (?b * 2)\<rparr> = Inr nodes \<and>
               plr_projects r =
                 map formatProject
                   (take (nat \<lfloor>?b\<rfloor>)
                      (filter (\<lambda>p. sublist (toLowerCase s) (toLowerCase (project_name p)) \<or>
                                    (\<exists>d. project_description p = Some d \<and> d \<noteq> [] \<and>
                                         sublist (toLowerCase s) (toLowerCase d))) nodes)))"
      by (intro conjI)
  qed
  have c4: "gpa_search args = None \<or> gpa_search args = Some [] \<longrightarrow>
            calls (snd (getProjects_handleRequest c args)) =
              [Projects \<lparr>pq_filter = Some (statusFilter (gpa_status args)), pq_first = Some ?b\<rparr>] \<and>
            (\<exists>nodes. projects c \<lparr>pq_filter = Some (statusFilter (gpa_status args)), pq_first = Some ?b\<rparr> = Inr nodes \<and>
               plr_projects r = map formatProject nodes)"
  proof (intro impI)
    assume p: "gpa_search args = None \<or> gpa_search args = Some []"
    note run = fetchProjects_plain [OF p, of c]
    from fp run r ev show "calls (snd (getProjects_handleRequest c args)) =
              [Projects \<lparr>pq_filter = Some (statusFilter (gpa_status args)), pq_first = Some ?b\<rparr>] \<and>
            (\<exists>nodes. projects c \<lparr>pq_filter = Some (statusFilter (gpa_status args)), pq_first = Some ?b\<rparr> = Inr nodes \<and>
               plr_projects r = map formatProject nodes)"
      by simp
  qed
  from c1 c2 c3 c4 show ?thesis by (intro conjI)
qed

theorem projects_returned_witness:
  "real (length (plr_projects \<lparr>plr_projects = [formatProject (mkProject ''p1'' ''Alpha'' None),
                          formatProject (mkProject ''p2'' ''Beta'' (Some ''the ALPHA sequel''))],
          plr_total = 2\<rparr>)) \<le> min 2 50 \<and>
   calls (snd (getProjects_handleRequest fourProjects searchArgs)) =
     [Projects \<lparr>pq_filter = None, pq_first = Some 4\<rparr>] \<and>
   calls (snd (getProjects_handleRequest fourProjects plainArgs)) =
     [Projects \<lparr>pq_filter = Some (ProjectStateTypeEq ''started''), pq_first = Some 2\<rparr>]"
proof -
  have s: "gpa_search searchArgs = Some ''alpha'' \<and> ''alpha'' \<noteq> []"
    and l: "gpa_limit searchArgs = Some 2 \<and> (0::real) < 2"
    and e: "effectiveLimit (gpa_limit searchArgs) = 2" "effectiveLimit (gpa_limit plainArgs) = 2"
    and p: "gpa_search plainArgs = None \<or> gpa_search plainArgs = Some []"
    and f: "statusFilter (gpa_status plainArgs) = ProjectStateTypeEq ''started''"
    by (simp_all add: searchArgs_def plainArgs_def effectiveLimit_def sample_filters)
  note a = projects_returned [OF search_run]
  note b = projects_returned [OF plain_run]
  note a3 = mp [OF spec [OF conjunct1 [OF conjunct2 [OF conjunct2 [OF a]]], of "''alpha''"] s]
  note b4 = mp [OF conjunct2 [OF conjunct2 [OF conjunct2 [OF b]]] p]
  from mp [OF spec [OF conjunct1 [OF conjunct2 [OF a3]], of 2] l]
  have x: "real (length (plr_projects \<lparr>plr_projects = [formatProject (mkProject ''p1'' ''Alpha'' None),
                          formatProject (mkProject ''p2'' ''Beta'' (Some ''the ALPHA sequel''))],
          plr_total = 2\<rparr>)) \<le> min 2 50" .
  from conjunct1 [OF conjunct2 [OF conjunct2 [OF conjunct2 [OF a3]]]]
  have y: "calls (snd (getProjects_handleRequest fourProjects searchArgs)) =
     [Projects \<lparr>pq_filter = None, pq_first = Some 4\<rparr>]"
    by (simp add: e)
  from conjunct1 [OF b4]
  have z: "calls (snd (getProjects_handleRequest fourProjects plainArgs)) =
     [Projects \<lparr>pq_filter = Some (ProjectStateTypeEq ''started''), pq_first = Some 2\<rparr>]"
    by (simp add: e f)
  from x y z show ?thesis by (intro conjI)
qed

text \<open>
  C10, as it is written, bounds every request. Without a search term and with the limit
  2, on a tracker that sends four projects, get-projects returns the four.
\<close>

theorem plain_path_counterexample:
  "gpa_limit plainArgs = Some 2 \<and>
   fst (getProjects_handleRequest fourProjects plainArgs) =
     Inr \<lparr>plr_projects = [formatProject (mkProject ''p1'' ''Alpha'' None),
                          formatProject (mkProject ''p2'' ''Beta'' (Some ''the ALPHA sequel'')),
                          formatProject (mkProject ''p3'' ''Gamma'' None),
                          formatProject (mkProject ''p4'' ''alphabet'' None)],
          plr_total = 4\<rparr> \<and>
   \<not> real (length [formatProject (mkProject ''p1'' ''Alpha'' None),
                     formatProject (mkProject ''p2'' ''Beta'' (Some ''the ALPHA sequel'')),
                     formatProject (mkProject ''p3'' ''Gamma'' None),
                     formatProject (mkProject ''p4'' ''alphabet'' None)]) \<le> min 2 50"
  using plain_run by (simp add: plainArgs_def)

section \<open>get-ticket: the two paths\<close>

lemma deriveKey_nonempty: "deriveKey team n \<noteq> []"
  by (simp add: deriveKey_def split: option.splits)

lemma ticketKey_nonempty: "ticketKey own team n \<noteq> []"
  by (cases own) (auto simp: ticketKey_def truthy_opt_def truthy_def deriveKey_nonempty)

lemma ticketKey_own: "x \<noteq> [] \<Longrightarrow> ticketKey (Some x) team n = x"
  by (simp add: ticketKey_def truthy_opt_def truthy_def)

lemma graphqlPath_result:
  "fst (graphqlPath c t p) = Inr r \<Longrightarrow>
   \<exists>resp issue. request c (variables p) = Inr resp \<and> r = formatGraphQLIssue issue"
  by (auto simp: graphqlPath_def io_fst_snd split: sum.splits option.splits)

lemma first_or_not_found_result:
  "fst (first_or_not_found t nodes) = Inr found \<Longrightarrow> found = index_at nodes 0 \<and> nodes \<noteq> []"
  by (auto simp: first_or_not_found_def split: if_splits)

lemma fallbackFindIssue_result:
  "fst (fallbackFindIssue c t p) = Inr found \<Longrightarrow>
   \<exists>f nodes. issues c f True = Inr nodes \<and> found = index_at nodes 0"
  by (auto simp: fallbackFindIssue_def io_fst_snd Let_def
           split: if_splits sum.splits dest!: first_or_not_found_result)

lemma when_truthy_total:
  "(\<And>s. \<exists>x. fst (f s) = Inr x) \<Longrightarrow> \<exists>x. fst (when_truthy v f) = Inr x"
  by (auto simp: when_truthy_def split: option.splits)

lemma fetchUserById_total: "\<exists>x. fst (fetchUserById c u) = Inr x"
  by (auto simp: fetchUserById_def io_fst_snd split: sum.splits)

lemma fetchTeamById_total: "\<exists>x. fst (fetchTeamById c u) = Inr x"
  by (auto simp: fetchTeamById_def io_fst_snd split: sum.splits)

lemma fetchTeamByKey_total: "\<exists>x. fst (fetchTeamByKey c u) = Inr x"
  by (auto simp: fetchTeamByKey_def io_fst_snd split: sum.splits)

lemma fetchStateById_total: "\<exists>x. fst (fetchStateById c u) = Inr x"
  by (auto simp: fetchStateById_def io_fst_snd split: sum.splits)

lemma backfillTeam_total: "\<exists>x. fst (backfillTeam c issue p) = Inr x"
  by (simp add: backfillTeam_def when_truthy_total fetchTeamById_total fetchTeamByKey_total)

lemma backfillLabels_total: "\<exists>x. fst (backfillLabels c ids) = Inr x"
  by (auto simp: backfillLabels_def io_fst_snd split: sum.splits option.splits)

lemma backfill_result:
  "\<exists>assignee team state labels.
     fst (when_truthy (issue_assigneeId issue) (fetchUserById c)) = Inr assignee \<and>
     fst (backfillTeam c issue p) = Inr team \<and>
     fst (when_truthy (issue_stateId issue) (fetchStateById c)) = Inr state \<and>
     fst (backfillLabels c (issue_labelIds issue)) = Inr labels \<and>
     fst (backfill c issue p) =
       Inr \<lparr>tr_id = issue_id issue, tr_title = issue_title issue,
            tr_description = issue_description issue, tr_number = issue_number issue,
            tr_key = ticketKey (issue_key issue) team (issue_number issue),
            tr_createdAt = issue_createdAt issue, tr_updatedAt = issue_updatedAt issue,
            tr_dueDate = issue_dueDate issue, tr_estimate = issue_estimate issue,
            tr_priority = issue_priority issue, tr_assignee = assignee, tr_team = team,
            tr_state = state, tr_labels = labels, tr_url = issue_url issue\<rparr>"
proof -
  obtain a where a: "fst (when_truthy (issue_assigneeId issue) (fetchUserById c)) = Inr a"
    using when_truthy_total [of "fetchUserById c"] fetchUserById_total by blast
  obtain t where t: "fst (backfillTeam c issue p) = Inr t"
    using backfillTeam_total by blast
  obtain s where s: "fst (when_truthy (issue_stateId issue) (fetchStateById c)) = Inr s"
    using when_truthy_total [of "fetchStateById c"] fetchStateById_total by blast
  obtain l where l: "fst (backfillLabels c (issue_labelIds issue)) = Inr l"
    using backfillLabels_total by blast
  show ?thesis using a t s l by (simp add: backfill_def fst_io_bind)
qed

lemma backfill_total: "fst (backfill c issue p) \<noteq> Inl e"
  using backfill_result [of issue c p] by auto

lemma fallbackPath_result:
  "fst (fallbackPath c t p) = Inr r \<Longrightarrow>
   \<exists>f nodes issue. issues c f True = Inr nodes \<and> index_at nodes 0 = Some issue \<and>
      fst (backfill c issue p) = Inr r"
  by (auto simp: fallbackPath_def fst_io_bind split: sum.splits option.splits
           dest!: fallbackFindIssue_result) metis

lemma formatGraphQLIssue_key:
  "tr_key (formatGraphQLIssue i) =
     deriveKey (tr_team (formatGraphQLIssue i)) (tr_number (formatGraphQLIssue i))"
  by (simp add: formatGraphQLIssue_def)

lemma lookups_request:
  "fetchUserById (c\<lparr>request := g\<rparr>) = fetchUserById c"
  "fetchTeamById (c\<lparr>request := g\<rparr>) = fetchTeamById c"
  "fetchTeamByKey (c\<lparr>request := g\<rparr>) = fetchTeamByKey c"
  "fetchStateById (c\<lparr>request := g\<rparr>) = fetchStateById c"
  "backfillLabels (c\<lparr>request := g\<rparr>) = backfillLabels c"
  by (rule ext, simp add: fetchUserById_def fetchTeamById_def fetchTeamByKey_def
        fetchStateById_def backfillLabels_def split: option.splits)+

lemma backfill_request: "backfill (c\<lparr>request := g\<rparr>) issue p = backfill c issue p"
  by (simp add: backfill_def backfillTeam_def lookups_request)

lemma fallbackPath_request [simp]: "fallbackPath (c\<lparr>request := g\<rparr>) t p = fallbackPath c t p"
  by (simp add: fallbackPath_def fallbackFindIssue_def backfill_request cong: option.case_cong)

lemma fallbackFindIssue_error:
  "fst (fallbackFindIssue c t p) = Inl e \<Longrightarrow> e = McpError InternalError (''Could not find ticket: '' @ t)"
  by (auto simp: fallbackFindIssue_def io_fst_snd Let_def split: if_splits sum.splits)

lemma fallbackPath_error:
  "fst (fallbackPath c t p) = Inl e \<Longrightarrow> \<exists>m. e = McpError InternalError m"
  by (auto simp: fallbackPath_def fst_io_bind backfill_total split: sum.splits option.splits
           dest: fallbackFindIssue_error)



lemma catch_mcp:
  assumes "\<And>e. fst m = Inl e \<Longrightarrow> \<exists>code msg. e = McpError code msg"
  shows "io_catch m (outer_catch l pre) = m"
proof (cases m)
  case (Pair res tr)
  show ?thesis
  proof (cases res)
    case (Inl e)
    with Pair assms obtain code msg where "e = McpError code msg" by auto
    with Pair Inl show ?thesis by (simp add: io_catch_def outer_catch_def io_throw_def)
  next
    case (Inr x)
    with Pair show ?thesis by (simp add: io_catch_def)
  qed
qed

lemma graphqlPath_events: "snd (graphqlPath c t p) = [Remote (RawRequest (variables p))]"
  by (auto simp: graphqlPath_def snd_io_bind split: sum.splits option.splits)

lemma graphqlPath_fst:
  "fst (graphqlPath c t p) =
     (case request c (variables p) of
        Inl e \<Rightarrow> Inl e
      | Inr resp \<Rightarrow>
          (case resp_issue resp of
             Some i \<Rightarrow> Inr (formatGraphQLIssue i)
           | None \<Rightarrow>
               (case resp_issueByTeamKeyAndNumber resp of
                  Some i \<Rightarrow> Inr (formatGraphQLIssue i)
                | None \<Rightarrow> Inl (McpError InternalError (''Ticket not found: '' @ t)))))"
  by (auto simp: graphqlPath_def fst_io_bind split: sum.splits option.splits)

lemma handler_unfold:
  assumes "truthy (gta_apiKey args)" "truthy (gta_ticketId args)"
  shows "getTicketById_handleRequest c args =
           (case fst (graphqlPath c (gta_ticketId args) (parseTicketId (gta_ticketId args))) of
              Inr r \<Rightarrow> (Inr r, [Remote (RawRequest (variables (parseTicketId (gta_ticketId args))))])
            | Inl e \<Rightarrow>
                (fst (fallbackPath c (gta_ticketId args) (parseTicketId (gta_ticketId args))),
                 Remote (RawRequest (variables (parseTicketId (gta_ticketId args)))) #
                 snd (fallbackPath c (gta_ticketId args) (parseTicketId (gta_ticketId args)))))"
proof -
  let ?t = "gta_ticketId args" and ?p = "parseTicketId (gta_ticketId args)"
  let ?inner = "io_catch (graphqlPath c ?t ?p) (\<lambda>graphqlError. fallbackPath c ?t ?p)"
  have inner: "?inner = (case fst (graphqlPath c ?t ?p) of
              Inr r \<Rightarrow> (Inr r, [Remote (RawRequest (variables ?p))])
            | Inl e \<Rightarrow> (fst (fallbackPath c ?t ?p), Remote (RawRequest (variables ?p)) # snd (fallbackPath c ?t ?p)))"
    using graphqlPath_events [of c ?t ?p]
    by (cases "graphqlPath c ?t ?p"; cases "fallbackPath c ?t ?p")
       (auto simp: io_catch_def split: sum.splits)
  have "\<And>e. fst ?inner = Inl e \<Longrightarrow> \<exists>code msg. e = McpError code msg"
    by (auto simp: fst_io_catch split: sum.splits dest: fallbackPath_error)
  then have "io_catch ?inner (outer_catch ''Error retrieving ticket:'' ''Failed to retrieve ticket: '') = ?inner"
    by (rule catch_mcp)
  with assms inner show ?thesis
    by (simp add: getTicketById_handleRequest_def Let_def)
qed

lemma toString_7: "toString 7 = ''7''"
  by code_simp


lemma backfill_key_idem:
  assumes "fst (backfill c issue p) = Inr r"
  shows "fst (backfill c (issue\<lparr>issue_key := Some (tr_key r)\<rparr>) p) = Inr r"
proof -
  from backfill_result [of issue c p] assms obtain team where
    t: "fst (backfillTeam c issue p) = Inr team"
    and k: "tr_key r = ticketKey (issue_key issue) team (issue_number issue)"
    by auto
  have t': "backfillTeam c (issue\<lparr>issue_key := Some (tr_key r)\<rparr>) p = backfillTeam c issue p"
    by (simp add: backfillTeam_def)
  have "tr_key r \<noteq> []"
    using ticketKey_nonempty [of "issue_key issue" team "issue_number issue"] k by simp
  then have kk: "ticketKey (Some (tr_key r)) team (issue_number issue) = tr_key r"
    by (rule ticketKey_own)
  from backfill_result [of "issue\<lparr>issue_key := Some (tr_key r)\<rparr>" c p]
       backfill_result [of issue c p] assms t kk
  show ?thesis by (auto simp: t')
qed

lemma key_samples:
  "fst (graphqlPath numberedTracker ''i1'' (parseTicketId ''i1'')) =
     Inr (formatGraphQLIssue (sampleGraphQLIssue\<lparr>gql_number := 524\<rparr>))"
  "tr_key (formatGraphQLIssue (sampleGraphQLIssue\<lparr>gql_number := 524\<rparr>)) = ''ABC-524''"
  "fst (graphqlPath nativeKeyTracker ''ABC-7'' (parseTicketId ''ABC-7'')) = Inl (Error ''Entity not found'')"
  "fst (fallbackFindIssue nativeKeyTracker ''ABC-7'' (parseTicketId ''ABC-7'')) =
     Inr (Some (sampleIssue\<lparr>issue_key := Some ''OLD-3''\<rparr>))"
  "fst (graphqlPath fallbackTracker ''ABC-7'' (parseTicketId ''ABC-7'')) = Inl (Error ''Entity not found'')"
  "fst (fallbackFindIssue fallbackTracker ''ABC-7'' (parseTicketId ''ABC-7'')) = Inr (Some sampleIssue)"
  "fst (backfillTeam fallbackTracker sampleIssue (parseTicketId ''ABC-7'')) = Inr (Some coreTeam)"
  by code_simp+

text \<open>
  C8, as the code has it. On the raw path the key of the record is
  \<open>team.key + "-" + number\<close> for the team of the record and \<open>"ISSUE-" + number\<close>
  without a team. On the fallback path the key is the non-empty key the found issue carries
  itself, whatever the team; only an issue without a key of its own gets
  \<open>team.key + "-" + number\<close> of the backfilled team, or \<open>"ISSUE-" + number\<close> when
  the team is not resolved. Backfilling the same issue again with the returned key as its
  own gives the same record: the derivation is idempotent.
\<close>

theorem ticket_key:
  assumes valid: "truthy (gta_apiKey args) \<and> truthy (gta_ticketId args)"
  shows "(\<forall>r. fst (graphqlPath c (gta_ticketId args) (parseTicketId (gta_ticketId args))) = Inr r \<longrightarrow>
            fst (getTicketById_handleRequest c args) = Inr r \<and>
            tr_key r =
              (case tr_team r of
                 Some tm \<Rightarrow> team_key tm @ ''-'' @ toString (tr_number r)
               | None \<Rightarrow> ''ISSUE-'' @ toString (tr_number r))) \<and>
         (\<forall>e issue.
            fst (graphqlPath c (gta_ticketId args) (parseTicketId (gta_ticketId args))) = Inl e \<and>
            fst (fallbackFindIssue c (gta_ticketId args) (parseTicketId (gta_ticketId args))) =
              Inr (Some issue) \<longrightarrow>
            (\<exists>r. fst (getTicketById_handleRequest c args) = Inr r \<and>
                 tr_number r = issue_number issue \<and>
                 fst (backfillTeam c issue (parseTicketId (gta_ticketId args))) = Inr (tr_team r) \<and>
                 tr_key r =
                   (case issue_key issue of
                      Some k \<Rightarrow>
                        if k \<noteq> [] then k
                        else (case tr_team r of
                                Some tm \<Rightarrow> team_key tm @ ''-'' @ toString (tr_number r)
                              | None \<Rightarrow> ''ISSUE-'' @ toString (tr_number r))
                    | None \<Rightarrow>
                        (case tr_team r of
                           Some tm \<Rightarrow> team_key tm @ ''-'' @ toString (tr_number r)
                         | None \<Rightarrow> ''ISSUE-'' @ toString (tr_number r))) \<and>
                 fst (backfill c (issue\<lparr>issue_key := Some (tr_key r)\<rparr>)
                        (parseTicketId (gta_ticketId args))) = Inr r))"
proof (intro conjI allI impI)
  let ?t = "gta_ticketId args" and ?p = "parseTicketId (gta_ticketId args)"
  note u = handler_unfold [of args, OF conjunct1 [OF valid] conjunct2 [OF valid]]
  fix r assume g: "fst (graphqlPath c ?t ?p) = Inr r"
  then show "fst (getTicketById_handleRequest c args) = Inr r" by (simp add: u)
  from g obtain issue where "r = formatGraphQLIssue issue"
    using graphqlPath_result by blast
  then have "tr_key r = deriveKey (tr_team r) (tr_number r)"
    using formatGraphQLIssue_key [of issue] by simp
  then show "tr_key r =
              (case tr_team r of
                 Some tm \<Rightarrow> team_key tm @ ''-'' @ toString (tr_number r)
               | None \<Rightarrow> ''ISSUE-'' @ toString (tr_number r))"
    by (simp add: deriveKey_def)
next
  let ?t = "gta_ticketId args" and ?p = "parseTicketId (gta_ticketId args)"
  note u = handler_unfold [of args, OF conjunct1 [OF valid] conjunct2 [OF valid]]
  fix e issue
  assume h: "fst (graphqlPath c ?t ?p) = Inl e \<and> fst (fallbackFindIssue c ?t ?p) = Inr (Some issue)"
  from backfill_result [of issue c ?p] obtain r team where
    b: "fst (backfill c issue ?p) = Inr r" and t: "fst (backfillTeam c issue ?p) = Inr team"
    and tm: "tr_team r = team" and n: "tr_number r = issue_number issue"
    and k: "tr_key r = ticketKey (issue_key issue) team (issue_number issue)"
    by auto
  have res: "fst (getTicketById_handleRequest c args) = Inr r"
    using h b by (simp add: u fallbackPath_def fst_io_bind)
  have key: "tr_key r =
                   (case issue_key issue of
                      Some k \<Rightarrow>
                        if k \<noteq> [] then k
                        else (case tr_team r of
                                Some tm \<Rightarrow> team_key tm @ ''-'' @ toString (tr_number r)
                              | None \<Rightarrow> ''ISSUE-'' @ toString (tr_number r))
                    | None \<Rightarrow>
                        (case tr_team r of
                           Some tm \<Rightarrow> team_key tm @ ''-'' @ toString (tr_number r)
                         | None \<Rightarrow> ''ISSUE-'' @ toString (tr_number r)))"
    using k tm n
    by (auto simp: ticketKey_def deriveKey_def truthy_opt_def truthy_def split: option.splits)
  from res n t tm key backfill_key_idem [OF b]
  show "\<exists>r. fst (getTicketById_handleRequest c args) = Inr r \<and>
                 tr_number r = issue_number issue \<and>
                 fst (backfillTeam c issue ?p) = Inr (tr_team r) \<and>
                 tr_key r =
                   (case issue_key issue of
                      Some k \<Rightarrow>
                        if k \<noteq> [] then k
                        else (case tr_team r of
                                Some tm \<Rightarrow> team_key tm @ ''-'' @ toString (tr_number r)
                              | None \<Rightarrow> ''ISSUE-'' @ toString (tr_number r))
                    | None \<Rightarrow>
                        (case tr_team r of
                           Some tm \<Rightarrow> team_key tm @ ''-'' @ toString (tr_number r)
                         | None \<Rightarrow> ''ISSUE-'' @ toString (tr_number r))) \<and>
                 fst (backfill c (issue\<lparr>issue_key := Some (tr_key r)\<rparr>) ?p) = Inr r"
    by blast
qed

theorem ticket_key_witness:
  "fst (getTicketById_handleRequest numberedTracker (getArgs ''i1'')) =
     Inr (formatGraphQLIssue (sampleGraphQLIssue\<lparr>gql_number := 524\<rparr>)) \<and>
   tr_key (formatGraphQLIssue (sampleGraphQLIssue\<lparr>gql_number := 524\<rparr>)) = ''ABC-524'' \<and>
   (\<exists>r. fst (getTicketById_handleRequest nativeKeyTracker (getArgs ''ABC-7'')) = Inr r \<and>
        tr_key r = ''OLD-3'') \<and>
   (\<exists>r. fst (getTicketById_handleRequest fallbackTracker (getArgs ''ABC-7'')) = Inr r \<and>
        tr_team r = Some coreTeam \<and> tr_key r = ''ABC-'' @ toString 7)"
proof -
  have v: "truthy (gta_apiKey (getArgs t)) \<and> (t \<noteq> [] \<longrightarrow> truthy (gta_ticketId (getArgs t)))" for t
    by (simp add: getArgs_def truthy_def)
  have v1: "truthy (gta_apiKey (getArgs ''i1'')) \<and> truthy (gta_ticketId (getArgs ''i1''))"
    and v2: "truthy (gta_apiKey (getArgs ''ABC-7'')) \<and> truthy (gta_ticketId (getArgs ''ABC-7''))"
    using v [of "''i1''"] v [of "''ABC-7''"] by simp_all
  have t: "gta_ticketId (getArgs t) = t" for t by (simp add: getArgs_def)
  from conjunct1 [OF ticket_key [OF v1, of numberedTracker]] key_samples(1)
  have a: "fst (getTicketById_handleRequest numberedTracker (getArgs ''i1'')) =
     Inr (formatGraphQLIssue (sampleGraphQLIssue\<lparr>gql_number := 524\<rparr>))"
    by (simp add: t)
  from conjunct2 [OF ticket_key [OF v2, of nativeKeyTracker]] key_samples(3,4)
  have "\<exists>r. fst (getTicketById_handleRequest nativeKeyTracker (getArgs ''ABC-7'')) = Inr r \<and>
             tr_key r = (case issue_key (sampleIssue\<lparr>issue_key := Some ''OLD-3''\<rparr>) of
                      Some k \<Rightarrow>
                        if k \<noteq> [] then k
                        else (case tr_team r of
                                Some tm \<Rightarrow> team_key tm @ ''-'' @ toString (tr_number r)
                              | None \<Rightarrow> ''ISSUE-'' @ toString (tr_number r))
                    | None \<Rightarrow>
                        (case tr_team r of
                           Some tm \<Rightarrow> team_key tm @ ''-'' @ toString (tr_number r)
                         | None \<Rightarrow> ''ISSUE-'' @ toString (tr_number r)))"
    unfolding t by blast
  then have b: "\<exists>r. fst (getTicketById_handleRequest nativeKeyTracker (getArgs ''ABC-7'')) = Inr r \<and>
        tr_key r = ''OLD-3''"
    by simp
  from conjunct2 [OF ticket_key [OF v2, of fallbackTracker]] key_samples(5,6)
  have "\<exists>r. fst (getTicketById_handleRequest fallbackTracker (getArgs ''ABC-7'')) = Inr r \<and>
             tr_number r = issue_number sampleIssue \<and>
             fst (backfillTeam fallbackTracker sampleIssue (parseTicketId ''ABC-7'')) = Inr (tr_team r) \<and>
             tr_key r = (case issue_key sampleIssue of
                      Some k \<Rightarrow>
                        if k \<noteq> [] then k
                        else (case tr_team r of
                                Some tm \<Rightarrow> team_key tm @ ''-'' @ toString (tr_number r)
                              | None \<Rightarrow> ''ISSUE-'' @ toString (tr_number r))
                    | None \<Rightarrow>
                        (case tr_team r of
                           Some tm \<Rightarrow> team_key tm @ ''-'' @ toString (tr_number r)
                         | None \<Rightarrow> ''ISSUE-'' @ toString (tr_number r)))"
    unfolding t by blast
  then have c: "\<exists>r. fst (getTicketById_handleRequest fallbackTracker (getArgs ''ABC-7'')) = Inr r \<and>
        tr_team r = Some coreTeam \<and> tr_key r = ''ABC-'' @ toString 7"
  proof -
    have ik: "issue_key sampleIssue = None" "issue_number sampleIssue = 7"
      by (simp_all add: sampleIssue_def)
    have tk: "team_key coreTeam = ''ABC''" by (simp add: coreTeam_def)
    assume "\<exists>r. fst (getTicketById_handleRequest fallbackTracker (getArgs ''ABC-7'')) = Inr r \<and>
             tr_number r = issue_number sampleIssue \<and>
             fst (backfillTeam fallbackTracker sampleIssue (parseTicketId ''ABC-7'')) = Inr (tr_team r) \<and>
             tr_key r = (case issue_key sampleIssue of
                      Some k \<Rightarrow>
                        if k \<noteq> [] then k
                        else (case tr_team r of
                                Some tm \<Rightarrow> team_key tm @ ''-'' @ toString (tr_number r)
                              | None \<Rightarrow> ''ISSUE-'' @ toString (tr_number r))
                    | None \<Rightarrow>
                        (case tr_team r of
                           Some tm \<Rightarrow> team_key tm @ ''-'' @ toString (tr_number r)
                         | None \<Rightarrow> ''ISSUE-'' @ toString (tr_number r)))"
    then obtain r where r: "fst (getTicketById_handleRequest fallbackTracker (getArgs ''ABC-7'')) = Inr r"
      and n: "tr_number r = 7" and tm: "Inr (Some coreTeam) = (Inr (tr_team r) :: exn + Team option)"
      and k: "tr_key r = (case tr_team r of
                           Some tm \<Rightarrow> team_key tm @ ''-'' @ toString (tr_number r)
                         | None \<Rightarrow> ''ISSUE-'' @ toString (tr_number r))"
      unfolding ik key_samples(7) by auto
    from tm have t': "tr_team r = Some coreTeam" by simp
    with k n tk have "tr_key r = ''ABC-'' @ toString 7" by simp
    with r t' show ?thesis by blast
  qed
  from a key_samples(2) b c show ?thesis by (intro conjI)
qed

text \<open>
  C8, as it is written, derives \<open>team.key + "-" + number\<close> for every record with a
  resolved team. For ABC-7 found by the structured query with the key OLD-3 of its own,
  the record has the team ABC, the number 7 and the key OLD-3.
\<close>

theorem native_key_counterexample:
  "fst (getTicketById_handleRequest nativeKeyTracker (getArgs ''ABC-7'')) = Inr nativeKeyRecord \<and>
   tr_team nativeKeyRecord = Some coreTeam \<and> tr_number nativeKeyRecord = 7 \<and>
   tr_key nativeKeyRecord = ''OLD-3'' \<and>
   team_key coreTeam @ ''-'' @ toString 7 = ''ABC-7''"
  by code_simp

section \<open>get-ticket: what the fallback does\<close>

lemma fetchUserById_calls [simp]: "calls (snd (fetchUserById c u)) = [Users u]"
  by (auto simp: fetchUserById_def io_fst_snd split: sum.splits)

lemma fetchTeamById_calls [simp]: "calls (snd (fetchTeamById c u)) = [Teams (TeamIdEq u)]"
  by (auto simp: fetchTeamById_def io_fst_snd split: sum.splits)

lemma fetchTeamByKey_calls [simp]: "calls (snd (fetchTeamByKey c u)) = [Teams (TeamKeyEq u)]"
  by (auto simp: fetchTeamByKey_def io_fst_snd split: sum.splits)

lemma fetchStateById_calls [simp]: "calls (snd (fetchStateById c u)) = [WorkflowStates (StateIdEq u)]"
  by (auto simp: fetchStateById_def io_fst_snd split: sum.splits)

















section \<open>get-ticket: lookups that fail during backfill\<close>

lemma when_truthy_failing:
  "(\<And>s. fst (f s) = Inr None) \<Longrightarrow> fst (when_truthy v f) = Inr None"
  by (simp add: when_truthy_def split: option.splits)

lemma fetchUserById_failing: "users c u = Inl e \<Longrightarrow> fst (fetchUserById c u) = Inr None"
  by (simp add: fetchUserById_def io_fst_snd)

lemma fetchTeamById_failing: "teams c (TeamIdEq u) = Inl e \<Longrightarrow> fst (fetchTeamById c u) = Inr None"
  by (simp add: fetchTeamById_def io_fst_snd)

lemma fetchTeamByKey_failing: "teams c (TeamKeyEq u) = Inl e \<Longrightarrow> fst (fetchTeamByKey c u) = Inr None"
  by (simp add: fetchTeamByKey_def io_fst_snd)

lemma fetchStateById_failing:
  "workflowStates c (StateIdEq u) = Inl e \<Longrightarrow> fst (fetchStateById c u) = Inr None"
  by (simp add: fetchStateById_def io_fst_snd)

lemma backfillLabels_failing:
  "issueLabels c = Inl e \<Longrightarrow>
   fst (backfillLabels c ids) =
     Inr (map placeholderLabel (case ids of None \<Rightarrow> [] | Some l \<Rightarrow> l))"
  by (simp add: backfillLabels_def io_fst_snd split: option.splits)

text \<open>
  C3, as the code has it. Backfill always returns a record, whatever the tracker answers
  to the lookups of assignee, team, state and labels. When all of them fail, the assignee,
  the team and the state of the record are \<open>null\<close>, every label id gets the placeholder
  with name "Unknown" and color "#cccccc", and the key falls back to the issue's own key
  or to "ISSUE-" and the number. When the raw path has raised and the structured query has
  found the issue, this record is what get-ticket returns.
\<close>

theorem backfill_degrades:
  "(\<exists>r. fst (backfill c issue p) = Inr r) \<and>
   ((\<forall>u. \<exists>e. users c u = Inl e) \<and> (\<forall>f. \<exists>e. teams c f = Inl e) \<and>
    (\<forall>f. \<exists>e. workflowStates c f = Inl e) \<and> (\<exists>e. issueLabels c = Inl e) \<longrightarrow>
      fst (backfill c issue p) =
        Inr \<lparr>tr_id = issue_id issue, tr_title = issue_title issue,
             tr_description = issue_description issue, tr_number = issue_number issue,
             tr_key = (if truthy_opt (issue_key issue) then the (issue_key issue)
                       else ''ISSUE-'' @ toString (issue_number issue)),
             tr_createdAt = issue_createdAt issue, tr_updatedAt = issue_updatedAt issue,
             tr_dueDate = issue_dueDate issue, tr_estimate = issue_estimate issue,
             tr_priority = issue_priority issue, tr_assignee = None, tr_team = None,
             tr_state = None,
             tr_labels = map (\<lambda>i. \<lparr>label_id = i, label_name = ''Unknown'', label_color = ''#cccccc''\<rparr>)
                           (case issue_labelIds issue of None \<Rightarrow> [] | Some ids \<Rightarrow> ids),
             tr_url = issue_url issue\<rparr>) \<and>
   (truthy (gta_apiKey args) \<and> truthy (gta_ticketId args) \<and>
    (\<exists>e. fst (graphqlPath c (gta_ticketId args) (parseTicketId (gta_ticketId args))) = Inl e) \<and>
    fst (fallbackFindIssue c (gta_ticketId args) (parseTicketId (gta_ticketId args))) = Inr (Some issue) \<and>
    p = parseTicketId (gta_ticketId args) \<longrightarrow>
      fst (getTicketById_handleRequest c args) = fst (backfill c issue p))"
proof (intro conjI impI)
  show "\<exists>r. fst (backfill c issue p) = Inr r"
    using backfill_result [of issue c p] by blast
next
  assume f: "(\<forall>u. \<exists>e. users c u = Inl e) \<and> (\<forall>f. \<exists>e. teams c f = Inl e) \<and>
    (\<forall>f. \<exists>e. workflowStates c f = Inl e) \<and> (\<exists>e. issueLabels c = Inl e)"
  have a: "fst (when_truthy (issue_assigneeId issue) (fetchUserById c)) = Inr None"
    using f by (intro when_truthy_failing) (metis fetchUserById_failing)
  have tb: "fst (fetchTeamById c u) = Inr None" for u
    using f by (metis fetchTeamById_failing)
  have tk: "fst (fetchTeamByKey c u) = Inr None" for u
    using f by (metis fetchTeamByKey_failing)
  have t: "fst (backfillTeam c issue p) = Inr None"
    by (simp add: backfillTeam_def when_truthy_failing tb tk)
  have s: "fst (when_truthy (issue_stateId issue) (fetchStateById c)) = Inr None"
    using f by (intro when_truthy_failing) (metis fetchStateById_failing)
  have l: "fst (backfillLabels c (issue_labelIds issue)) =
             Inr (map placeholderLabel (case issue_labelIds issue of None \<Rightarrow> [] | Some l \<Rightarrow> l))"
    using f backfillLabels_failing by blast
  have pl: "placeholderLabel = (\<lambda>i. \<lparr>label_id = i, label_name = ''Unknown'', label_color = ''#cccccc''\<rparr>)"
    by (rule ext) (simp add: placeholderLabel_def)
  show "fst (backfill c issue p) =
        Inr \<lparr>tr_id = issue_id issue, tr_title = issue_title issue,
             tr_description = issue_description issue, tr_number = issue_number issue,
             tr_key = (if truthy_opt (issue_key issue) then the (issue_key issue)
                       else ''ISSUE-'' @ toString (issue_number issue)),
             tr_createdAt = issue_createdAt issue, tr_updatedAt = issue_updatedAt issue,
             tr_dueDate = issue_dueDate issue, tr_estimate = issue_estimate issue,
             tr_priority = issue_priority issue, tr_assignee = None, tr_team = None,
             tr_state = None,
             tr_labels = map (\<lambda>i. \<lparr>label_id = i, label_name = ''Unknown'', label_color = ''#cccccc''\<rparr>)
                           (case issue_labelIds issue of None \<Rightarrow> [] | Some ids \<Rightarrow> ids),
             tr_url = issue_url issue\<rparr>"
    using a t s l by (simp add: backfill_def fst_io_bind ticketKey_def deriveKey_def pl)
next
  assume h: "truthy (gta_apiKey args) \<and> truthy (gta_ticketId args) \<and>
    (\<exists>e. fst (graphqlPath c (gta_ticketId args) (parseTicketId (gta_ticketId args))) = Inl e) \<and>
    fst (fallbackFindIssue c (gta_ticketId args) (parseTicketId (gta_ticketId args))) = Inr (Some issue) \<and>
    p = parseTicketId (gta_ticketId args)"
  then show "fst (getTicketById_handleRequest c args) = fst (backfill c issue p)"
    by (auto simp: handler_unfold fallbackPath_def fst_io_bind)
qed

theorem backfill_degrades_witness:
  "fst (backfill lookupsFail sampleIssue (parseTicketId ''ABC-7'')) = Inr degradedRecord \<and>
   fst (getTicketById_handleRequest lookupsFail (getArgs ''ABC-7'')) = Inr degradedRecord"
proof -
  have f: "(\<forall>u. \<exists>e. users lookupsFail u = Inl e) \<and> (\<forall>f. \<exists>e. teams lookupsFail f = Inl e) \<and>
    (\<forall>f. \<exists>e. workflowStates lookupsFail f = Inl e) \<and> (\<exists>e. issueLabels lookupsFail = Inl e)"
    by (simp add: lookupsFail_def)
  have g: "truthy (gta_apiKey (getArgs ''ABC-7'')) \<and> truthy (gta_ticketId (getArgs ''ABC-7'')) \<and>
    (\<exists>e. fst (graphqlPath lookupsFail (gta_ticketId (getArgs ''ABC-7'')) (parseTicketId (gta_ticketId (getArgs ''ABC-7'')))) = Inl e) \<and>
    fst (fallbackFindIssue lookupsFail (gta_ticketId (getArgs ''ABC-7'')) (parseTicketId (gta_ticketId (getArgs ''ABC-7'')))) = Inr (Some sampleIssue) \<and>
    parseTicketId ''ABC-7'' = parseTicketId (gta_ticketId (getArgs ''ABC-7''))"
    by (simp add: getArgs_def truthy_def graphqlPath_fst lookupsFail_def fallbackTracker_def
          noTickets_def fallbackFindIssue_def io_fst_snd first_or_not_found_def Let_def)
  from backfill_degrades [of lookupsFail sampleIssue "parseTicketId ''ABC-7''" "getArgs ''ABC-7''"] f g
  show ?thesis
    by (simp add: sampleIssue_def degradedRecord_def truthy_opt_def toString_7)
qed

text \<open>
  C3, as it is written, asks for a placeholder named "Unknown" in place of every failed
  lookup. For the ticket ABC-7 on a tracker whose lookups all fail, get-ticket returns a
  record whose assignee, team and state are \<open>null\<close>.
\<close>

theorem failed_lookups_counterexample:
  "fst (getTicketById_handleRequest lookupsFail (getArgs ''ABC-7'')) = Inr degradedRecord \<and>
   tr_assignee degradedRecord = None \<and> tr_team degradedRecord = None \<and>
   tr_state degradedRecord = None"
  by code_simp

section \<open>Resolution when the tracker has no match\<close>

lemma str_includes_suffix: "str_includes (pre @ t) t"
  by (simp add: str_includes_sublist)

lemma fallbackFindIssue_empty:
  assumes "\<forall>f. issues c f True = Inr []"
  shows "\<exists>f. fallbackFindIssue c t p =
           (Inl (McpError InternalError (''Could not find ticket: '' @ t)),
            [Remote (Issues f True),
             ConsoleError ''Error finding ticket:'' (McpError InternalError (''Ticket not found: '' @ t))])"
  using assms
  by (auto simp: fallbackFindIssue_def io_catch_def io_bind_def await_def first_or_not_found_def
        io_throw_def console_error_def Let_def)

lemma findIssue_empty:
  assumes "\<forall>f. issues c f False = Inr []"
  shows "\<exists>f. findIssue c t =
           (Inl (McpError InternalError (''Could not find ticket: '' @ t)),
            [Remote (Issues f False),
             ConsoleError ''Error finding ticket:'' (McpError InternalError (''Ticket not found: '' @ t))])"
  using assms
  by (auto simp: findIssue_def io_catch_def io_bind_def await_def first_or_not_found_def
        io_throw_def console_error_def Let_def)

text \<open>
  C4, as the code has it. When the raw query of get-ticket answers without an issue and
  the structured issue query answers with an empty list, the request fails with the
  \<open>InternalError\<close> "Could not find ticket: " followed by the identifier, which the
  message therefore contains; the events are the raw query, the structured query and one
  console line, so one more remote call follows the first empty answer and none follows
  the second. Update-ticket makes the structured query only and fails the same way.
\<close>

theorem not_found_after_fallback:
  "(truthy (gta_apiKey args) \<and> truthy (gta_ticketId args) \<and>
    request c (variables (parseTicketId (gta_ticketId args))) =
      Inr \<lparr>resp_issue = None, resp_issueByTeamKeyAndNumber = None\<rparr> \<and>
    (\<forall>f. issues c f True = Inr []) \<longrightarrow>
      (\<exists>f. getTicketById_handleRequest c args =
         (Inl (McpError InternalError (''Could not find ticket: '' @ gta_ticketId args)),
          [Remote (RawRequest (variables (parseTicketId (gta_ticketId args)))),
           Remote (Issues f True),
           ConsoleError ''Error finding ticket:''
             (McpError InternalError (''Ticket not found: '' @ gta_ticketId args))])) \<and>
      str_includes (''Could not find ticket: '' @ gta_ticketId args) (gta_ticketId args)) \<and>
   (truthy (uta_apiKey ua) \<and> truthy (uta_ticketId ua) \<and> hasUpdateField ua \<and>
    \<not> priority_out_of_range (uta_priority ua) \<and> (\<forall>f. issues c f False = Inr []) \<longrightarrow>
      (\<exists>f. updateTicket_handleRequest c ua =
         (Inl (McpError InternalError (''Could not find ticket: '' @ uta_ticketId ua)),
          [Remote (Issues f False),
           ConsoleError ''Error finding ticket:''
             (McpError InternalError (''Ticket not found: '' @ uta_ticketId ua))])))"
proof (intro conjI impI)
  assume h: "truthy (gta_apiKey args) \<and> truthy (gta_ticketId args) \<and>
    request c (variables (parseTicketId (gta_ticketId args))) =
      Inr \<lparr>resp_issue = None, resp_issueByTeamKeyAndNumber = None\<rparr> \<and>
    (\<forall>f. issues c f True = Inr [])"
  let ?t = "gta_ticketId args" and ?p = "parseTicketId (gta_ticketId args)"
  from h have g: "fst (graphqlPath c ?t ?p) = Inl (McpError InternalError (''Ticket not found: '' @ ?t))"
    by (simp add: graphqlPath_fst)
  from h obtain f where f: "fallbackFindIssue c ?t ?p =
           (Inl (McpError InternalError (''Could not find ticket: '' @ ?t)),
            [Remote (Issues f True),
             ConsoleError ''Error finding ticket:'' (McpError InternalError (''Ticket not found: '' @ ?t))])"
    using fallbackFindIssue_empty [of c ?t ?p] by blast
  then have "fallbackPath c ?t ?p =
           (Inl (McpError InternalError (''Could not find ticket: '' @ ?t)),
            [Remote (Issues f True),
             ConsoleError ''Error finding ticket:'' (McpError InternalError (''Ticket not found: '' @ ?t))])"
    by (simp add: fallbackPath_def io_bind_def)
  with h g show "\<exists>f. getTicketById_handleRequest c args =
         (Inl (McpError InternalError (''Could not find ticket: '' @ ?t)),
          [Remote (RawRequest (variables ?p)), Remote (Issues f True),
           ConsoleError ''Error finding ticket:'' (McpError InternalError (''Ticket not found: '' @ ?t))])"
    by (auto simp: handler_unfold)
  show "str_includes (''Could not find ticket: '' @ ?t) ?t"
    by (rule str_includes_suffix)
next
  assume h: "truthy (uta_apiKey ua) \<and> truthy (uta_ticketId ua) \<and> hasUpdateField ua \<and>
    \<not> priority_out_of_range (uta_priority ua) \<and> (\<forall>f. issues c f False = Inr [])"
  let ?t = "uta_ticketId ua"
  from h obtain f where f: "findIssue c ?t =
           (Inl (McpError InternalError (''Could not find ticket: '' @ ?t)),
            [Remote (Issues f False),
             ConsoleError ''Error finding ticket:'' (McpError InternalError (''Ticket not found: '' @ ?t))])"
    using findIssue_empty [of c ?t] by blast
  then have "updateTicket_body c ua =
           (Inl (McpError InternalError (''Could not find ticket: '' @ ?t)),
            [Remote (Issues f False),
             ConsoleError ''Error finding ticket:'' (McpError InternalError (''Ticket not found: '' @ ?t))])"
    by (simp add: updateTicket_body_def io_bind_def Let_def)
  with h show "\<exists>f. updateTicket_handleRequest c ua =
         (Inl (McpError InternalError (''Could not find ticket: '' @ ?t)),
          [Remote (Issues f False),
           ConsoleError ''Error finding ticket:'' (McpError InternalError (''Ticket not found: '' @ ?t))])"
    by (auto simp: updateTicket_handleRequest_def io_catch_def outer_catch_def io_throw_def)
qed

theorem not_found_after_fallback_witness:
  "getTicketById_handleRequest noTickets (getArgs ''ABC-7'') =
     (Inl (McpError InternalError ''Could not find ticket: ABC-7''),
      [Remote (RawRequest (VarsTeamKeyNumber (Some ''ABC'') (Some 7))),
       Remote (Issues (IssueTeamKeyNumber (Some ''ABC'') (Some 7)) True),
       ConsoleError ''Error finding ticket:'' (McpError InternalError ''Ticket not found: ABC-7'')]) \<and>
   str_includes ''Could not find ticket: ABC-7'' ''ABC-7'' \<and>
   updateTicket_handleRequest noTickets (ticketArgs ''ABC-7'' (Some 1)) =
     (Inl (McpError InternalError ''Could not find ticket: ABC-7''),
      [Remote (Issues (IssueTeamKeyNumber (Some ''ABC'') (Some 7)) False),
       ConsoleError ''Error finding ticket:'' (McpError InternalError ''Ticket not found: ABC-7'')])"
proof -
  have v: "variables (parseTicketId ''ABC-7'') = VarsTeamKeyNumber (Some ''ABC'') (Some 7)"
    by code_simp
  have g: "truthy (gta_apiKey (getArgs ''ABC-7'')) \<and> truthy (gta_ticketId (getArgs ''ABC-7'')) \<and>
    request noTickets (variables (parseTicketId (gta_ticketId (getArgs ''ABC-7'')))) =
      Inr \<lparr>resp_issue = None, resp_issueByTeamKeyAndNumber = None\<rparr> \<and>
    (\<forall>f. issues noTickets f True = Inr [])"
    by (simp add: getArgs_def truthy_def noTickets_def)
  have u: "truthy (uta_apiKey (ticketArgs ''ABC-7'' (Some 1))) \<and>
    truthy (uta_ticketId (ticketArgs ''ABC-7'' (Some 1))) \<and> hasUpdateField (ticketArgs ''ABC-7'' (Some 1)) \<and>
    \<not> priority_out_of_range (uta_priority (ticketArgs ''ABC-7'' (Some 1))) \<and>
    (\<forall>f. issues noTickets f False = Inr [])"
    by (simp add: ticketArgs_def truthy_def hasUpdateField_def priority_out_of_range_def noTickets_def)
  have e1: "snd (getTicketById_handleRequest noTickets (getArgs ''ABC-7'')) =
      [Remote (RawRequest (VarsTeamKeyNumber (Some ''ABC'') (Some 7))),
       Remote (Issues (IssueTeamKeyNumber (Some ''ABC'') (Some 7)) True),
       ConsoleError ''Error finding ticket:'' (McpError InternalError ''Ticket not found: ABC-7'')]"
    by code_simp
  have e2: "snd (updateTicket_handleRequest noTickets (ticketArgs ''ABC-7'' (Some 1))) =
      [Remote (Issues (IssueTeamKeyNumber (Some ''ABC'') (Some 7)) False),
       ConsoleError ''Error finding ticket:'' (McpError InternalError ''Ticket not found: ABC-7'')]"
    by code_simp
  from not_found_after_fallback [of "getArgs ''ABC-7''" noTickets "ticketArgs ''ABC-7'' (Some 1)"] g u
  have "(\<exists>f. getTicketById_handleRequest noTickets (getArgs ''ABC-7'') =
         (Inl (McpError InternalError (''Could not find ticket: '' @ ''ABC-7'')),
          [Remote (RawRequest (variables (parseTicketId ''ABC-7''))),
           Remote (Issues f True),
           ConsoleError ''Error finding ticket:''
             (McpError InternalError (''Ticket not found: '' @ ''ABC-7''))]))"
    and "str_includes (''Could not find ticket: '' @ ''ABC-7'') ''ABC-7''"
    and "(\<exists>f. updateTicket_handleRequest noTickets (ticketArgs ''ABC-7'' (Some 1)) =
         (Inl (McpError InternalError (''Could not find ticket: '' @ ''ABC-7'')),
          [Remote (Issues f False),
           ConsoleError ''Error finding ticket:''
             (McpError InternalError (''Ticket not found: '' @ ''ABC-7''))]))"
    by (simp_all add: getArgs_def ticketArgs_def)
  with e1 e2 show ?thesis by (auto simp: v)
qed

text \<open>
  C4, as it is written, allows no remote call after the empty answer. For "ABC-7" on a
  tracker without tickets the raw query answers with neither key, and get-ticket then makes
  a second remote call, the structured issue query.
\<close>

theorem not_found_counterexample:
  "request noTickets (VarsTeamKeyNumber (Some ''ABC'') (Some 7)) =
     Inr \<lparr>resp_issue = None, resp_issueByTeamKeyAndNumber = None\<rparr> \<and>
   calls (snd (getTicketById_handleRequest noTickets (getArgs ''ABC-7''))) =
     [RawRequest (VarsTeamKeyNumber (Some ''ABC'') (Some 7)),
      Issues (IssueTeamKeyNumber (Some ''ABC'') (Some 7)) True]"
  by code_simp

section \<open>Which query resolves an identifier\<close>

lemma issue_queries_append [simp]: "issue_queries (xs @ ys) = issue_queries xs @ issue_queries ys"
  by (induction xs rule: issue_queries.induct) simp_all

lemma parseTicketId_hyphen:
  "str_includes t ''-'' \<Longrightarrow>
   parseTicketId t =
     \<lparr>issueId = None, teamKey = Some (before_hyphen t),
      issueNumber = Some (before_hyphen (after_hyphen t))\<rparr>"
  by (simp add: parseTicketId_def Let_def js_split_first js_split_second str_includes_char
        before_hyphen_def after_hyphen_def)

lemma parseTicketId_plain:
  "\<not> str_includes t ''-'' \<Longrightarrow> parseTicketId t = \<lparr>issueId = Some t, teamKey = None, issueNumber = None\<rparr>"
  by (simp add: parseTicketId_def)

lemma findIssue_queries:
  "issue_queries (snd (findIssue c t)) =
     [Issues (if str_includes t ''-''
              then IssueTeamKeyNumber (Some (before_hyphen t)) (parseInt (before_hyphen (after_hyphen t)))
              else IssueIdEq t) False]"
  by (auto simp: findIssue_def io_fst_snd Let_def first_or_not_found_def parseInt_opt_def
        js_split_first js_split_second str_includes_char before_hyphen_def after_hyphen_def
        split: sum.splits)

lemma fallbackFindIssue_queries:
  "issue_queries (snd (fallbackFindIssue c t p)) =
     [Issues (if truthy_opt (teamKey p) \<and> truthy_opt (issueNumber p)
              then IssueTeamKeyNumber (teamKey p) (parseInt_opt (issueNumber p))
              else IssueIdEq t) True]"
  by (auto simp: fallbackFindIssue_def io_fst_snd Let_def first_or_not_found_def split: sum.splits)

lemma when_truthy_queries:
  "(\<And>s. issue_queries (snd (f s)) = []) \<Longrightarrow> issue_queries (snd (when_truthy v f)) = []"
  by (simp add: when_truthy_def split: option.splits)

lemma lookup_queries [simp]:
  "issue_queries (snd (fetchUserById c u)) = []"
  "issue_queries (snd (fetchTeamById c u)) = []"
  "issue_queries (snd (fetchTeamByKey c u)) = []"
  "issue_queries (snd (fetchStateById c u)) = []"
  "issue_queries (snd (backfillLabels c ids)) = []"
  by (auto simp: fetchUserById_def fetchTeamById_def fetchTeamByKey_def fetchStateById_def
        backfillLabels_def io_fst_snd split: sum.splits option.splits)

lemma backfill_queries: "issue_queries (snd (backfill c issue p)) = []"
  by (auto simp: backfill_def backfillTeam_def snd_io_bind when_truthy_queries split: sum.splits)

lemma fallbackPath_queries:
  "issue_queries (snd (fallbackPath c t p)) =
     [Issues (if truthy_opt (teamKey p) \<and> truthy_opt (issueNumber p)
              then IssueTeamKeyNumber (teamKey p) (parseInt_opt (issueNumber p))
              else IssueIdEq t) True]"
  by (auto simp: fallbackPath_def snd_io_bind fallbackFindIssue_queries backfill_queries
           split: sum.splits option.splits)

lemma updateTicket_body_queries:
  "issue_queries (snd (updateTicket_body c ua)) = issue_queries (snd (findIssue c (uta_ticketId ua)))"
  by (auto simp: updateTicket_body_def snd_io_bind Let_def when_truthy_queries
           split: sum.splits option.splits)

lemma outer_catch_queries [simp]: "issue_queries (snd (outer_catch l pre e)) = []"
  by (cases e) (simp_all add: outer_catch_def snd_io_bind)

lemma variables_hyphen:
  "str_includes t ''-'' \<Longrightarrow>
   variables (parseTicketId t) =
     VarsTeamKeyNumber (Some (before_hyphen t))
       (if before_hyphen (after_hyphen t) = [] then Some 0
        else parseInt (before_hyphen (after_hyphen t)))"
  by (simp add: parseTicketId_hyphen variables_def truthy_opt_def truthy_def parseInt_opt_def)

lemma variables_plain:
  "\<not> str_includes t ''-'' \<Longrightarrow> t \<noteq> [] \<Longrightarrow> variables (parseTicketId t) = VarsId t"
  by (simp add: parseTicketId_plain variables_def truthy_def)

lemma pieces_7:
  "before_hyphen ''ABC-7'' = ''ABC''" "after_hyphen ''ABC-7'' = ''7''"
  "before_hyphen ''7'' = ''7''" "parseInt ''7'' = Some 7" "str_includes ''ABC-7'' ''-''"
  "\<not> str_includes ''i1'' ''-''"
  by code_simp+

lemma pieces_xyz:
  "before_hyphen ''ABC-xyz'' = ''ABC''" "after_hyphen ''ABC-xyz'' = ''xyz''"
  "before_hyphen ''xyz'' = ''xyz''" "parseInt ''xyz'' = None" "str_includes ''ABC-xyz'' ''-''"
  by code_simp+

lemma hyphen_decomposition:
  "str_includes t ''-'' \<Longrightarrow> t = before_hyphen t @ ''-'' @ after_hyphen t"
proof -
  assume "str_includes t ''-''"
  then have m: "CHR ''-'' \<in> set t" by (simp add: str_includes_char)
  then have "dropWhile (\<lambda>x. x \<noteq> CHR ''-'') t \<noteq> []" by simp
  moreover from this have "hd (dropWhile (\<lambda>x. x \<noteq> CHR ''-'') t) = CHR ''-''"
    using hd_dropWhile [of "\<lambda>x. x \<noteq> CHR ''-''" t] by simp
  ultimately have "dropWhile (\<lambda>x. x \<noteq> CHR ''-'') t = CHR ''-'' # after_hyphen t"
    by (cases "dropWhile (\<lambda>x. x \<noteq> CHR ''-'') t") (simp_all add: after_hyphen_def)
  then show ?thesis
    using takeWhile_dropWhile_id [of "\<lambda>x. x \<noteq> CHR ''-''" t] by (simp add: before_hyphen_def)
qed

lemma before_hyphen_no_hyphen: "CHR ''-'' \<notin> set (before_hyphen t)"
  by (auto simp: before_hyphen_def dest: set_takeWhileD)

lemma fallbackFindIssue_first:
  "\<exists>rest. snd (fallbackFindIssue c t p) =
     Remote (Issues (if truthy_opt (teamKey p) \<and> truthy_opt (issueNumber p)
              then IssueTeamKeyNumber (teamKey p) (parseInt_opt (issueNumber p))
              else IssueIdEq t) True) # rest"
  by (simp add: fallbackFindIssue_def io_fst_snd Let_def)

lemma findIssue_first:
  "\<exists>rest. snd (findIssue c t) =
     Remote (Issues (if str_includes t ''-''
              then IssueTeamKeyNumber (Some (before_hyphen t)) (parseInt (before_hyphen (after_hyphen t)))
              else IssueIdEq t) False) # rest"
  by (simp add: findIssue_def io_fst_snd Let_def parseInt_opt_def
        js_split_first js_split_second str_includes_char before_hyphen_def after_hyphen_def)

text \<open>
  C1, as the code has it. Update-ticket makes exactly one issue query: by team key and
  number for an identifier with a hyphen (the key is the text before the first hyphen, the
  number what \<open>parseInt\<close> reads in the text up to the next hyphen), by id otherwise.
  Get-ticket starts with the raw query, by id for an identifier without a hyphen and by
  team key and number otherwise (the number is 0 when its part is empty); when the raw path
  raises, one structured query follows, by team key and number only if the identifier has a
  hyphen and both parts are non-empty, and by id equal to the whole identifier otherwise.
\<close>

theorem issue_queries_by_key_or_id:
  "(truthy (uta_apiKey ua) \<and> truthy (uta_ticketId ua) \<and> hasUpdateField ua \<and>
    \<not> priority_out_of_range (uta_priority ua) \<longrightarrow>
      issue_queries (snd (updateTicket_handleRequest c ua)) =
        [Issues (if str_includes (uta_ticketId ua) ''-''
                 then IssueTeamKeyNumber (Some (before_hyphen (uta_ticketId ua)))
                        (parseInt (before_hyphen (after_hyphen (uta_ticketId ua))))
                 else IssueIdEq (uta_ticketId ua)) False]) \<and>
   (truthy (gta_apiKey args) \<and> truthy (gta_ticketId args) \<longrightarrow>
      issue_queries (snd (getTicketById_handleRequest c args)) =
        RawRequest
          (if str_includes (gta_ticketId args) ''-''
           then VarsTeamKeyNumber (Some (before_hyphen (gta_ticketId args)))
                  (if before_hyphen (after_hyphen (gta_ticketId args)) = [] then Some 0
                   else parseInt (before_hyphen (after_hyphen (gta_ticketId args))))
           else VarsId (gta_ticketId args)) #
        (case fst (graphqlPath c (gta_ticketId args) (parseTicketId (gta_ticketId args))) of
           Inr r \<Rightarrow> []
         | Inl e \<Rightarrow>
             [Issues
                (if str_includes (gta_ticketId args) ''-'' \<and> before_hyphen (gta_ticketId args) \<noteq> [] \<and>
                    before_hyphen (after_hyphen (gta_ticketId args)) \<noteq> []
                 then IssueTeamKeyNumber (Some (before_hyphen (gta_ticketId args)))
                        (parseInt (before_hyphen (after_hyphen (gta_ticketId args))))
                 else IssueIdEq (gta_ticketId args)) True]))"
proof (intro conjI impI)
  assume "truthy (uta_apiKey ua) \<and> truthy (uta_ticketId ua) \<and> hasUpdateField ua \<and>
    \<not> priority_out_of_range (uta_priority ua)"
  then show "issue_queries (snd (updateTicket_handleRequest c ua)) =
        [Issues (if str_includes (uta_ticketId ua) ''-''
                 then IssueTeamKeyNumber (Some (before_hyphen (uta_ticketId ua)))
                        (parseInt (before_hyphen (after_hyphen (uta_ticketId ua))))
                 else IssueIdEq (uta_ticketId ua)) False]"
    by (simp add: updateTicket_handleRequest_def snd_io_catch updateTicket_body_queries
          findIssue_queries split: sum.splits)
next
  assume v: "truthy (gta_apiKey args) \<and> truthy (gta_ticketId args)"
  let ?t = "gta_ticketId args"
  have ne: "?t \<noteq> []" using v by (simp add: truthy_def)
  have vars: "variables (parseTicketId ?t) =
          (if str_includes ?t ''-''
           then VarsTeamKeyNumber (Some (before_hyphen ?t))
                  (if before_hyphen (after_hyphen ?t) = [] then Some 0
                   else parseInt (before_hyphen (after_hyphen ?t)))
           else VarsId ?t)"
    using ne by (simp add: variables_hyphen variables_plain)
  have flt: "(if truthy_opt (teamKey (parseTicketId ?t)) \<and> truthy_opt (issueNumber (parseTicketId ?t))
              then IssueTeamKeyNumber (teamKey (parseTicketId ?t)) (parseInt_opt (issueNumber (parseTicketId ?t)))
              else IssueIdEq ?t) =
             (if str_includes ?t ''-'' \<and> before_hyphen ?t \<noteq> [] \<and> before_hyphen (after_hyphen ?t) \<noteq> []
                 then IssueTeamKeyNumber (Some (before_hyphen ?t)) (parseInt (before_hyphen (after_hyphen ?t)))
                 else IssueIdEq ?t)"
    by (cases "str_includes ?t ''-''")
       (simp_all add: parseTicketId_hyphen parseTicketId_plain truthy_opt_def truthy_def parseInt_opt_def)
  show "issue_queries (snd (getTicketById_handleRequest c args)) =
        RawRequest
          (if str_includes ?t ''-''
           then VarsTeamKeyNumber (Some (before_hyphen ?t))
                  (if before_hyphen (after_hyphen ?t) = [] then Some 0
                   else parseInt (before_hyphen (after_hyphen ?t)))
           else VarsId ?t) #
        (case fst (graphqlPath c ?t (parseTicketId ?t)) of
           Inr r \<Rightarrow> []
         | Inl e \<Rightarrow>
             [Issues
                (if str_includes ?t ''-'' \<and> before_hyphen ?t \<noteq> [] \<and>
                    before_hyphen (after_hyphen ?t) \<noteq> []
                 then IssueTeamKeyNumber (Some (before_hyphen ?t))
                        (parseInt (before_hyphen (after_hyphen ?t)))
                 else IssueIdEq ?t) True])"
    unfolding vars [symmetric] flt [symmetric]
    using v by (simp add: handler_unfold fallbackPath_queries split: sum.splits)
qed

theorem issue_queries_by_key_or_id_witness:
  "issue_queries (snd (updateTicket_handleRequest noTickets (ticketArgs ''ABC-7'' (Some 1)))) =
     [Issues (IssueTeamKeyNumber (Some ''ABC'') (Some 7)) False] \<and>
   issue_queries (snd (updateTicket_handleRequest noTickets (ticketArgs ''i1'' (Some 1)))) =
     [Issues (IssueIdEq ''i1'') False] \<and>
   issue_queries (snd (getTicketById_handleRequest noTickets (getArgs ''ABC-7''))) =
     [RawRequest (VarsTeamKeyNumber (Some ''ABC'') (Some 7)),
      Issues (IssueTeamKeyNumber (Some ''ABC'') (Some 7)) True] \<and>
   issue_queries (snd (getTicketById_handleRequest graphqlTracker (getArgs ''i1''))) =
     [RawRequest (VarsId ''i1'')]"
proof -
  have u: "truthy (uta_apiKey (ticketArgs t (Some 1))) \<and> (t \<noteq> [] \<longrightarrow> truthy (uta_ticketId (ticketArgs t (Some 1)))) \<and>
           hasUpdateField (ticketArgs t (Some 1)) \<and>
           \<not> priority_out_of_range (uta_priority (ticketArgs t (Some 1)))" for t
    by (simp add: ticketArgs_def truthy_def hasUpdateField_def priority_out_of_range_def)
  have g: "truthy (gta_apiKey (getArgs t)) \<and> (t \<noteq> [] \<longrightarrow> truthy (gta_ticketId (getArgs t)))" for t
    by (simp add: getArgs_def truthy_def)
  have p1: "fst (graphqlPath noTickets ''ABC-7'' (parseTicketId ''ABC-7'')) =
              Inl (McpError InternalError ''Ticket not found: ABC-7'')"
    by (simp add: graphqlPath_fst noTickets_def)
  have p2: "fst (graphqlPath graphqlTracker ''i1'' (parseTicketId ''i1'')) =
              Inr (formatGraphQLIssue sampleGraphQLIssue)"
    by (simp add: graphqlPath_fst graphqlTracker_def noTickets_def)
  from issue_queries_by_key_or_id [of "ticketArgs ''ABC-7'' (Some 1)" noTickets "getArgs ''ABC-7''"]
       u [of "''ABC-7''"] g [of "''ABC-7''"] p1
  have a: "issue_queries (snd (updateTicket_handleRequest noTickets (ticketArgs ''ABC-7'' (Some 1)))) =
             [Issues (IssueTeamKeyNumber (Some ''ABC'') (Some 7)) False]"
    and b: "issue_queries (snd (getTicketById_handleRequest noTickets (getArgs ''ABC-7''))) =
     [RawRequest (VarsTeamKeyNumber (Some ''ABC'') (Some 7)),
      Issues (IssueTeamKeyNumber (Some ''ABC'') (Some 7)) True]"
    by (simp_all add: ticketArgs_def getArgs_def pieces_7)
  from issue_queries_by_key_or_id [of _ graphqlTracker "getArgs ''i1''"]
       g [of "''i1''"] p2
  have c: "issue_queries (snd (getTicketById_handleRequest graphqlTracker (getArgs ''i1''))) =
     [RawRequest (VarsId ''i1'')]"
    by (simp add: getArgs_def pieces_7)
  from issue_queries_by_key_or_id [of "ticketArgs ''i1'' (Some 1)" noTickets]
       u [of "''i1''"]
  have d: "issue_queries (snd (updateTicket_handleRequest noTickets (ticketArgs ''i1'' (Some 1)))) =
     [Issues (IssueIdEq ''i1'') False]"
    by (simp add: ticketArgs_def pieces_7)
  from a b c d show ?thesis by simp
qed

text \<open>
  C1, as it is written, has every identifier with a hyphen queried by team key and
  number, and only one of the two branches run. For "ABC-" get-ticket makes the raw query by
  team key and number and then the structured query by id.
\<close>

theorem hyphen_queried_by_id_counterexample:
  "str_includes ''ABC-'' ''-'' \<and>
   calls (snd (getTicketById_handleRequest noTickets (getArgs ''ABC-''))) =
     [RawRequest (VarsTeamKeyNumber (Some ''ABC'') (Some 0)), Issues (IssueIdEq ''ABC-'') True]"
  by code_simp

text \<open>
  C6, as the code has it. An identifier with a hyphen is its part before the first
  hyphen, the hyphen and the rest; the split is at every hyphen, so the number part is the
  rest only up to its next hyphen. When \<open>parseInt\<close> reads no number there, update-ticket
  still queries by team key and number, with \<open>NaN\<close> as the number; the raw query of
  get-ticket sends \<open>NaN\<close> too, or 0 for an empty number part; the fallback of get-ticket
  queries by team key and \<open>NaN\<close> when both parts are non-empty and by id otherwise.
\<close>

theorem identifier_parsing:
  "str_includes t ''-'' \<longrightarrow>
     t = before_hyphen t @ ''-'' @ after_hyphen t \<and>
     CHR ''-'' \<notin> set (before_hyphen t) \<and>
     parseTicketId t =
       \<lparr>issueId = None, teamKey = Some (before_hyphen t),
        issueNumber = Some (before_hyphen (after_hyphen t))\<rparr> \<and>
     (parseInt (before_hyphen (after_hyphen t)) = None \<longrightarrow>
        (\<exists>rest. snd (findIssue c t) =
           Remote (Issues (IssueTeamKeyNumber (Some (before_hyphen t)) None) False) # rest) \<and>
        variables (parseTicketId t) =
          VarsTeamKeyNumber (Some (before_hyphen t))
            (if before_hyphen (after_hyphen t) = [] then Some 0 else None) \<and>
        (\<exists>rest. snd (fallbackFindIssue c t (parseTicketId t)) =
           Remote (Issues (if before_hyphen t \<noteq> [] \<and> before_hyphen (after_hyphen t) \<noteq> []
                           then IssueTeamKeyNumber (Some (before_hyphen t)) None
                           else IssueIdEq t) True) # rest))"
proof (intro impI conjI)
  assume h: "str_includes t ''-''"
  show "t = before_hyphen t @ ''-'' @ after_hyphen t" using h by (rule hyphen_decomposition)
  show "CHR ''-'' \<notin> set (before_hyphen t)" by (rule before_hyphen_no_hyphen)
  show p: "parseTicketId t =
       \<lparr>issueId = None, teamKey = Some (before_hyphen t),
        issueNumber = Some (before_hyphen (after_hyphen t))\<rparr>"
    using h by (rule parseTicketId_hyphen)
  assume n: "parseInt (before_hyphen (after_hyphen t)) = None"
  show "\<exists>rest. snd (findIssue c t) =
           Remote (Issues (IssueTeamKeyNumber (Some (before_hyphen t)) None) False) # rest"
    using findIssue_first [of c t] h n by simp
  show "variables (parseTicketId t) =
          VarsTeamKeyNumber (Some (before_hyphen t))
            (if before_hyphen (after_hyphen t) = [] then Some 0 else None)"
    using h n by (simp add: variables_hyphen)
  show "\<exists>rest. snd (fallbackFindIssue c t (parseTicketId t)) =
           Remote (Issues (if before_hyphen t \<noteq> [] \<and> before_hyphen (after_hyphen t) \<noteq> []
                           then IssueTeamKeyNumber (Some (before_hyphen t)) None
                           else IssueIdEq t) True) # rest"
  proof -
    have "(if truthy_opt (teamKey (parseTicketId t)) \<and> truthy_opt (issueNumber (parseTicketId t))
           then IssueTeamKeyNumber (teamKey (parseTicketId t)) (parseInt_opt (issueNumber (parseTicketId t)))
           else IssueIdEq t) =
          (if before_hyphen t \<noteq> [] \<and> before_hyphen (after_hyphen t) \<noteq> []
           then IssueTeamKeyNumber (Some (before_hyphen t)) None
           else IssueIdEq t)"
      using n by (simp add: p truthy_opt_def truthy_def parseInt_opt_def)
    with fallbackFindIssue_first [of c t "parseTicketId t"] show ?thesis by simp
  qed
qed

theorem identifier_parsing_witness:
  "str_includes ''ABC-xyz'' ''-'' \<and>
   parseTicketId ''ABC-xyz'' = \<lparr>issueId = None, teamKey = Some ''ABC'', issueNumber = Some ''xyz''\<rparr> \<and>
   parseInt ''xyz'' = None \<and>
   (\<exists>rest. snd (findIssue noTickets ''ABC-xyz'') =
      Remote (Issues (IssueTeamKeyNumber (Some ''ABC'') None) False) # rest)"
  using identifier_parsing [of "''ABC-xyz''" noTickets]
  by (simp add: pieces_xyz)

text \<open>
  C6, as it is written, turns an identifier whose number part does not parse into a
  lookup by opaque id. For "ABC-xyz" both handlers query by team key "ABC" and number
  \<open>NaN\<close>, and make no query by id.
\<close>

theorem unparsed_number_counterexample:
  "str_includes ''ABC-xyz'' ''-'' \<and> parseInt ''xyz'' = None \<and>
   calls (snd (updateTicket_handleRequest noTickets (ticketArgs ''ABC-xyz'' (Some 1)))) =
     [Issues (IssueTeamKeyNumber (Some ''ABC'') None) False] \<and>
   calls (snd (getTicketById_handleRequest noTickets (getArgs ''ABC-xyz''))) =
     [RawRequest (VarsTeamKeyNumber (Some ''ABC'') None),
      Issues (IssueTeamKeyNumber (Some ''ABC'') None) True]"
  by code_simp

section \<open>update-ticket: the state named "done"\<close>

lemma toLowerCase_nonempty: "toLowerCase s = x # xs \<Longrightarrow> s \<noteq> []"
  by (auto simp: toLowerCase_def)

lemma is_done_name_iff:
  "is_done_name (Some s) = (toLowerCase s = ''done'' \<or> toLowerCase s = ''completed'')"
  by (auto simp: is_done_name_def truthy_def dest: toLowerCase_nonempty)

lemma resolveDoneState_run:
  assumes "fst (effectiveTeamId c t issue) = Inr (Some tid)" "truthy tid"
      and "workflowStates c (StateTeamIdEq tid) = Inr states"
  shows "resolveDoneState c t issue =
           ((case find is_done_state states of
               Some st \<Rightarrow> Inr (state_id st)
             | None \<Rightarrow> Inl (McpError InternalError
                 (''Failed to find 'Done' state: '' @
                  message (McpError InternalError ''Could not find a 'Done' state for this team'')))),
            snd (effectiveTeamId c t issue) @ [Remote (WorkflowStates (StateTeamIdEq tid))])"
  using assms
  by (cases "effectiveTeamId c t issue")
     (auto simp: resolveDoneState_def io_catch_def io_bind_def await_def io_return_def io_throw_def
        truthy_opt_def split: option.splits)

lemma findIssue_no_update: "Remote (UpdateIssue i u) \<notin> set (snd (findIssue c t))"
  by (auto simp: findIssue_def io_fst_snd Let_def first_or_not_found_def split: sum.splits if_splits)

lemma effectiveTeamId_no_update: "Remote (UpdateIssue i u) \<notin> set (snd (effectiveTeamId c t issue))"
  by (auto simp: effectiveTeamId_def io_fst_snd Let_def split: sum.splits option.splits if_splits)

lemma effectiveTeamId_own:
  "truthy_opt (issue_teamId issue) \<Longrightarrow> effectiveTeamId c t issue = (Inr (issue_teamId issue), [])"
  by (simp add: effectiveTeamId_def io_return_def)

lemma effectiveTeamId_by_key:
  assumes "\<not> truthy_opt (issue_teamId issue)"
      and "fst (effectiveTeamId c t issue) = Inr (Some tid)" and "truthy tid"
  shows "str_includes t ''-'' \<and>
         (\<exists>nodes tm. teams c (TeamKeyEq (before_hyphen t)) = Inr nodes \<and>
            index_at nodes 0 = Some tm \<and> team_id tm = tid)"
proof -
  have h: "str_includes t ''-''"
    using assms by (auto simp: effectiveTeamId_def truthy_opt_def split: if_splits)
  have k: "index_at (js_split t CHR ''-'') 0 = Some (before_hyphen t)"
    by (simp add: js_split_first before_hyphen_def)
  from assms h k show ?thesis
    by (auto simp: effectiveTeamId_def Let_def io_fst_snd truthy_opt_def
             split: sum.splits option.splits)
qed

lemma find_first:
  "find P xs = Some x \<Longrightarrow> \<exists>i<length xs. x = xs ! i \<and> P x \<and> (\<forall>j<i. \<not> P (xs ! j))"
  by (auto simp: find_Some_iff)

lemma done_samples:
  "toLowerCase ''Completed'' = ''completed''"
  "toLowerCase ''done'' = ''done''"
  "fst (findIssue doneTracker ''ABC-7'') = Inr (Some sampleIssue)"
  "fst (findIssue noDoneTracker ''ABC-7'') = Inr (Some sampleIssue)"
  "find is_done_state [todoState, doneState] = Some doneState"
  "find is_done_state [todoState] = None"
  "snd (findIssue doneTracker ''ABC-7'') = [Remote (Issues (IssueTeamKeyNumber (Some ''ABC'') (Some 7)) False)]"
  by code_simp+

text \<open>
  C2, as the code has it (second version of the handler). For a request whose stateId is
  "done" or "completed" in any case, once the issue is found and a team id is known (the
  issue's own, else that of the team whose key is the first piece of the identifier), the
  handler lists the workflow states of that team. The first state named "done" or
  "completed" in any case, or of type "completed", becomes the stateId of the update that
  is sent. When no state matches, no update is sent and the request fails with an
  \<open>InternalError\<close> whose message is the fixed text "Failed to find 'Done' state: "
  followed by the message of the error "Could not find a 'Done' state for this team".
\<close>

theorem done_state_resolution:
  assumes valid: "truthy (uta_apiKey a) \<and> truthy (uta_ticketId a)"
      and named: "uta_stateId a = Some s \<and> (toLowerCase s = ''done'' \<or> toLowerCase s = ''completed'')"
      and prio: "\<not> priority_out_of_range (uta_priority a)"
      and found: "fst (findIssue c (uta_ticketId a)) = Inr (Some issue)"
      and team: "fst (effectiveTeamId c (uta_ticketId a) issue) = Inr (Some tid) \<and> truthy tid"
      and states: "workflowStates c (StateTeamIdEq tid) = Inr states"
  shows "(if truthy_opt (issue_teamId issue) then issue_teamId issue = Some tid
          else str_includes (uta_ticketId a) ''-'' \<and>
               (\<exists>nodes tm. teams c (TeamKeyEq (before_hyphen (uta_ticketId a))) = Inr nodes \<and>
                  index_at nodes 0 = Some tm \<and> team_id tm = tid)) \<and>
         (\<forall>st. find is_done_state states = Some st \<longrightarrow>
            (\<exists>i<length states. st = states ! i \<and> is_done_state st \<and> (\<forall>j<i. \<not> is_done_state (states ! j))) \<and>
            (\<exists>rest. snd (updateTicket2_handleRequest c a) =
               snd (findIssue c (uta_ticketId a)) @ snd (effectiveTeamId c (uta_ticketId a) issue) @
               [Remote (WorkflowStates (StateTeamIdEq tid)),
                Remote (UpdateIssue (issue_id issue)
                          ((updateTicket2_updateData a)\<lparr>upd_stateId := Some (state_id st)\<rparr>))] @ rest)) \<and>
         (find is_done_state states = None \<longrightarrow>
            updateTicket2_handleRequest c a =
              (Inl (McpError InternalError
                      (''Failed to find 'Done' state: '' @
                       message (McpError InternalError ''Could not find a 'Done' state for this team''))),
               snd (findIssue c (uta_ticketId a)) @ snd (effectiveTeamId c (uta_ticketId a) issue) @
               [Remote (WorkflowStates (StateTeamIdEq tid))]) \<and>
            (\<forall>i u. Remote (UpdateIssue i u) \<notin> set (snd (updateTicket2_handleRequest c a))))"
proof -
  let ?t = "uta_ticketId a"
  have dn: "is_done_name (uta_stateId a)" using named by (simp add: is_done_name_iff)
  have hf: "hasUpdateField a" using named by (simp add: hasUpdateField_def)
  have unfold: "updateTicket2_handleRequest c a =
                  io_catch (updateTicket2_body c a)
                    (outer_catch ''Error updating ticket:'' ''Failed to update ticket: '')"
    using valid hf prio by (simp add: updateTicket2_handleRequest_def)
  note rd = resolveDoneState_run [OF conjunct1 [OF team] conjunct2 [OF team] states]
  have c1: "if truthy_opt (issue_teamId issue) then issue_teamId issue = Some tid
          else str_includes ?t ''-'' \<and>
               (\<exists>nodes tm. teams c (TeamKeyEq (before_hyphen ?t)) = Inr nodes \<and>
                  index_at nodes 0 = Some tm \<and> team_id tm = tid)"
  proof (cases "truthy_opt (issue_teamId issue)")
    case True
    with team show ?thesis by (auto simp: effectiveTeamId_own)
  next
    case False
    with effectiveTeamId_by_key [OF False conjunct1 [OF team] conjunct2 [OF team]]
    show ?thesis by simp
  qed
  have c2: "\<forall>st. find is_done_state states = Some st \<longrightarrow>
            (\<exists>i<length states. st = states ! i \<and> is_done_state st \<and> (\<forall>j<i. \<not> is_done_state (states ! j))) \<and>
            (\<exists>rest. snd (updateTicket2_handleRequest c a) =
               snd (findIssue c ?t) @ snd (effectiveTeamId c ?t issue) @
               [Remote (WorkflowStates (StateTeamIdEq tid)),
                Remote (UpdateIssue (issue_id issue)
                          ((updateTicket2_updateData a)\<lparr>upd_stateId := Some (state_id st)\<rparr>))] @ rest)"
  proof (intro allI impI conjI)
    fix st assume st: "find is_done_state states = Some st"
    then show "\<exists>i<length states. st = states ! i \<and> is_done_state st \<and> (\<forall>j<i. \<not> is_done_state (states ! j))"
      by (rule find_first)
    from st rd have r: "resolveDoneState c ?t issue =
        (Inr (state_id st), snd (effectiveTeamId c ?t issue) @ [Remote (WorkflowStates (StateTeamIdEq tid))])"
      by simp
    show "\<exists>rest. snd (updateTicket2_handleRequest c a) =
               snd (findIssue c ?t) @ snd (effectiveTeamId c ?t issue) @
               [Remote (WorkflowStates (StateTeamIdEq tid)),
                Remote (UpdateIssue (issue_id issue)
                          ((updateTicket2_updateData a)\<lparr>upd_stateId := Some (state_id st)\<rparr>))] @ rest"
      unfolding unfold using found dn r
      by (simp add: updateTicket2_body_def io_fst_snd)
  qed
  have c3: "find is_done_state states = None \<longrightarrow>
            updateTicket2_handleRequest c a =
              (Inl (McpError InternalError
                      (''Failed to find 'Done' state: '' @
                       message (McpError InternalError ''Could not find a 'Done' state for this team''))),
               snd (findIssue c ?t) @ snd (effectiveTeamId c ?t issue) @
               [Remote (WorkflowStates (StateTeamIdEq tid))]) \<and>
            (\<forall>i u. Remote (UpdateIssue i u) \<notin> set (snd (updateTicket2_handleRequest c a)))"
  proof (intro impI)
    assume n: "find is_done_state states = None"
    with rd have r: "resolveDoneState c ?t issue =
        (Inl (McpError InternalError
                      (''Failed to find 'Done' state: '' @
                       message (McpError InternalError ''Could not find a 'Done' state for this team''))),
         snd (effectiveTeamId c ?t issue) @ [Remote (WorkflowStates (StateTeamIdEq tid))])"
      by simp
    have e: "updateTicket2_handleRequest c a =
              (Inl (McpError InternalError
                      (''Failed to find 'Done' state: '' @
                       message (McpError InternalError ''Could not find a 'Done' state for this team''))),
               snd (findIssue c ?t) @ snd (effectiveTeamId c ?t issue) @
               [Remote (WorkflowStates (StateTeamIdEq tid))])"
      unfolding unfold using found dn r
      by (cases "findIssue c ?t")
         (simp add: updateTicket2_body_def io_catch_def io_bind_def outer_catch_def io_throw_def)
    show "updateTicket2_handleRequest c a =
              (Inl (McpError InternalError
                      (''Failed to find 'Done' state: '' @
                       message (McpError InternalError ''Could not find a 'Done' state for this team''))),
               snd (findIssue c ?t) @ snd (effectiveTeamId c ?t issue) @
               [Remote (WorkflowStates (StateTeamIdEq tid))]) \<and>
            (\<forall>i u. Remote (UpdateIssue i u) \<notin> set (snd (updateTicket2_handleRequest c a)))"
      using e by (simp add: findIssue_no_update effectiveTeamId_no_update)
  qed
  from c1 c2 c3 show ?thesis by (intro conjI)
qed

theorem done_state_resolution_witness:
  "(\<exists>rest. snd (updateTicket2_handleRequest doneTracker (doneArgs ''Completed'')) =
      [Remote (Issues (IssueTeamKeyNumber (Some ''ABC'') (Some 7)) False),
       Remote (WorkflowStates (StateTeamIdEq ''t1'')),
       Remote (UpdateIssue ''i1''
                 ((updateTicket2_updateData (doneArgs ''Completed''))\<lparr>upd_stateId := Some ''s2''\<rparr>))] @ rest) \<and>
   fst (updateTicket2_handleRequest noDoneTracker (doneArgs ''done'')) =
     Inl (McpError InternalError
            (''Failed to find 'Done' state: '' @
             message (McpError InternalError ''Could not find a 'Done' state for this team'')))"
proof -
  have valid: "truthy (uta_apiKey (doneArgs s)) \<and> truthy (uta_ticketId (doneArgs s))" for s
    by (simp add: doneArgs_def ticketArgs_def truthy_def)
  have prio: "\<not> priority_out_of_range (uta_priority (doneArgs s))" for s
    by (simp add: doneArgs_def ticketArgs_def priority_out_of_range_def)
  have tid: "uta_ticketId (doneArgs s) = ''ABC-7''" for s
    by (simp add: doneArgs_def ticketArgs_def)
  have team: "fst (effectiveTeamId c (uta_ticketId (doneArgs s)) sampleIssue) = Inr (Some ''t1'') \<and> truthy ''t1''" for c s
    by (simp add: effectiveTeamId_own sampleIssue_def truthy_opt_def truthy_def)
  have n1: "uta_stateId (doneArgs ''Completed'') = Some ''Completed'' \<and>
            (toLowerCase ''Completed'' = ''done'' \<or> toLowerCase ''Completed'' = ''completed'')"
    by (simp add: doneArgs_def done_samples)
  have n2: "uta_stateId (doneArgs ''done'') = Some ''done'' \<and>
            (toLowerCase ''done'' = ''done'' \<or> toLowerCase ''done'' = ''completed'')"
    by (simp add: doneArgs_def done_samples)
  have f1: "fst (findIssue doneTracker (uta_ticketId (doneArgs ''Completed''))) = Inr (Some sampleIssue)"
    by (simp add: tid done_samples)
  have f2: "fst (findIssue noDoneTracker (uta_ticketId (doneArgs ''done''))) = Inr (Some sampleIssue)"
    by (simp add: tid done_samples)
  have s1: "workflowStates doneTracker (StateTeamIdEq ''t1'') = Inr [todoState, doneState]"
    by (simp add: doneTracker_def)
  have s2: "workflowStates noDoneTracker (StateTeamIdEq ''t1'') = Inr [todoState]"
    by (simp add: noDoneTracker_def)
  have own: "effectiveTeamId c ''ABC-7'' sampleIssue = (Inr (Some ''t1''), [])" for c
    using effectiveTeamId_own [of sampleIssue c "''ABC-7''"]
    by (simp add: sampleIssue_def truthy_opt_def truthy_def)
  have ids: "state_id doneState = ''s2''" "issue_id sampleIssue = ''i1''"
    by (simp_all add: doneState_def sampleIssue_def)
  note r1 = done_state_resolution [OF valid n1 prio f1 team s1]
  note r2 = done_state_resolution [OF valid n2 prio f2 team s2]
  note found = conjunct2 [OF mp [OF spec [OF conjunct1 [OF conjunct2 [OF r1]], of doneState] done_samples(5)]]
  note none = conjunct1 [OF mp [OF conjunct2 [OF conjunct2 [OF r2]] done_samples(6)]]
  from found
  have a: "\<exists>rest. snd (updateTicket2_handleRequest doneTracker (doneArgs ''Completed'')) =
      [Remote (Issues (IssueTeamKeyNumber (Some ''ABC'') (Some 7)) False),
       Remote (WorkflowStates (StateTeamIdEq ''t1'')),
       Remote (UpdateIssue ''i1''
                 ((updateTicket2_updateData (doneArgs ''Completed''))\<lparr>upd_stateId := Some ''s2''\<rparr>))] @ rest"
    by (simp only: tid done_samples(7) own ids snd_conv append_Nil append_Cons)
  from none
  have b: "fst (updateTicket2_handleRequest noDoneTracker (doneArgs ''done'')) =
     Inl (McpError InternalError
            (''Failed to find 'Done' state: '' @
             message (McpError InternalError ''Could not find a 'Done' state for this team'')))"
    by (simp only: fst_conv)
  from a b show ?thesis by simp
qed

text \<open>
  C2, as it is written, has the error name the team. For ABC-7 of team Core (id t1, key
  ABC), whose workflow has no final state, the message holds neither the id, nor the key,
  nor the name of the team.
\<close>

theorem done_error_counterexample:
  "fst (updateTicket2_handleRequest noDoneTracker (doneArgs ''done'')) =
     Inl (McpError InternalError
            ''Failed to find 'Done' state: MCP error -32603: Could not find a 'Done' state for this team'') \<and>
   \<not> str_includes ''Failed to find 'Done' state: MCP error -32603: Could not find a 'Done' state for this team'' ''t1'' \<and>
   \<not> str_includes ''Failed to find 'Done' state: MCP error -32603: Could not find a 'Done' state for this team'' ''ABC'' \<and>
   \<not> str_includes ''Failed to find 'Done' state: MCP error -32603: Could not find a 'Done' state for this team'' ''Core''"
  by code_simp

end
